theory Spec2Isabelle
  imports Complex_Main
begin

section \<open>Python values, exceptions and log records\<close>

text \<open>
  A Python \<open>str\<close> is a sequence of Unicode code points, so it is modelled as a list of
  natural numbers; \<open>py_str\<close> turns an ASCII literal into that representation.  The
  methods of \<open>Assistant\<close> are annotated with \<open>str\<close> but Python does not enforce the
  annotation, so their arguments range over \<open>pyval\<close>: a \<open>str\<close>, a \<open>bytes\<close> object, an
  \<open>int\<close> or \<open>None\<close>.
\<close>

type_synonym codepoint = nat
type_synonym pystr = "codepoint list"

definition py_str :: "string \<Rightarrow> pystr" where
  "py_str s = map of_char s"

datatype pyval = PStr pystr | PBytes "nat list" | PInt int | PNone

text \<open>
  Exceptions.  \<open>is_Exception e\<close> is \<open>isinstance(e, Exception)\<close>: \<open>CancelledError\<close>
  (since Python 3.8), \<open>KeyboardInterrupt\<close> and \<open>SystemExit\<close> derive from
  \<open>BaseException\<close> only, so \<open>except Exception\<close> lets them pass while a bare
  \<open>except:\<close> catches them.
\<close>

datatype py_exception =
    AttributeError | TypeError | ValueError | RuntimeError | ConnectionError
  | Asyncio_TimeoutError
  | CancelledError | KeyboardInterrupt | SystemExit

fun is_Exception :: "py_exception \<Rightarrow> bool" where
  "is_Exception CancelledError = False"
| "is_Exception KeyboardInterrupt = False"
| "is_Exception SystemExit = False"
| "is_Exception _ = True"

text \<open>
  A log record is a level and the pieces of the (f-)string that was logged: literal
  ASCII text, literal text beyond ASCII, an interpolated exception, an interpolated value.
\<close>

datatype level = INFO | WARNING | ERROR

datatype fpart = Lit string | Uni pystr | Exc py_exception | Val pyval

subsection \<open>The Python operations the methods use\<close>

text \<open>\<open>bool(v)\<close>, as \<open>not v\<close> evaluates it.\<close>

fun truthy :: "pyval \<Rightarrow> bool" where
  "truthy (PStr s) = (s \<noteq> [])"
| "truthy (PBytes b) = (b \<noteq> [])"
| "truthy (PInt n) = (n \<noteq> 0)"
| "truthy PNone = False"

text \<open>The code points \<open>str.strip()\<close> removes (those with \<open>str.isspace()\<close>).\<close>

definition is_space :: "codepoint \<Rightarrow> bool" where
  "is_space c \<longleftrightarrow>
     (0x09 \<le> c \<and> c \<le> 0x0D) \<or> (0x1C \<le> c \<and> c \<le> 0x20) \<or> c = 0x85 \<or> c = 0xA0 \<or>
     c = 0x1680 \<or> (0x2000 \<le> c \<and> c \<le> 0x200A) \<or> c = 0x2028 \<or> c = 0x2029 \<or>
     c = 0x202F \<or> c = 0x205F \<or> c = 0x3000"

text \<open>The bytes \<open>bytes.strip()\<close> removes (ASCII whitespace).\<close>

definition is_space_byte :: "nat \<Rightarrow> bool" where
  "is_space_byte b \<longleftrightarrow> b = 0x20 \<or> (0x09 \<le> b \<and> b \<le> 0x0D)"

definition strip :: "('a \<Rightarrow> bool) \<Rightarrow> 'a list \<Rightarrow> 'a list" where
  "strip sp s = rev (dropWhile sp (rev (dropWhile sp s)))"

text \<open>\<open>v.strip()\<close>: an \<open>int\<close> and \<open>None\<close> have no such attribute.\<close>

fun py_strip :: "pyval \<Rightarrow> py_exception + pyval" where
  "py_strip (PStr s) = Inr (PStr (strip is_space s))"
| "py_strip (PBytes b) = Inr (PBytes (strip is_space_byte b))"
| "py_strip (PInt n) = Inl AttributeError"
| "py_strip PNone = Inl AttributeError"

text \<open>
  \<open>any(p(char) for char in v)\<close> where \<open>p\<close> compares \<open>char\<close> with one-character \<open>str\<close>
  bounds.  The elements of a \<open>bytes\<close> object are \<open>int\<close>s, and comparing a \<open>str\<close> with
  an \<open>int\<close> raises \<open>TypeError\<close> at the first element; an \<open>int\<close> and \<open>None\<close> are not
  iterable.
\<close>

fun py_any_char :: "(codepoint \<Rightarrow> bool) \<Rightarrow> pyval \<Rightarrow> py_exception + bool" where
  "py_any_char p (PStr s) = Inr (list_ex p s)"
| "py_any_char p (PBytes b) = (if b = [] then Inr False else Inl TypeError)"
| "py_any_char p (PInt n) = Inl TypeError"
| "py_any_char p PNone = Inl TypeError"

text \<open>\<open>message[:100]\<close>: an \<open>int\<close> and \<open>None\<close> are not subscriptable.\<close>

fun py_slice_100 :: "pyval \<Rightarrow> py_exception + pyval" where
  "py_slice_100 (PStr s) = Inr (PStr (take 100 s))"
| "py_slice_100 (PBytes b) = Inr (PBytes (take 100 b))"
| "py_slice_100 (PInt n) = Inl TypeError"
| "py_slice_100 PNone = Inl TypeError"

section \<open>The assistant and its collaborators\<close>

text \<open>The fields an \<open>Assistant\<close> object carries after \<open>__init__\<close>.\<close>

record assistant =
  instructions :: pystr
  user_language_preference :: pystr
  conversation_history :: "pyval list"

text \<open>
  The configurations the entry point constructs backends from, with the keyword
  arguments in the order of the source; an argument that is left out is \<open>None\<close>.
\<close>

datatype config =
    Groq_STT string "pystr option" string bool
      \<comment> \<open>model, api_key, language, detect_language\<close>
  | Deepgram_STT string string bool bool bool
      \<comment> \<open>model, language, interim_results, smart_format, punctuate\<close>
  | Groq_LLM string
      \<comment> \<open>model\<close>
  | Azure_TTS "pystr option" "pystr option" string "string option" nat
      \<comment> \<open>speech_key, speech_region, voice, language, sample_rate\<close>
  | Silero_VAD_load "real option" "real option"
      \<comment> \<open>min_silence_duration, min_speech_duration\<close>

text \<open>
  Every call that leaves the module: the inherited \<open>say\<close>, the backend constructors,
  and the session runtime.  \<open>'h\<close> is the type of the opaque objects these calls
  return (handles, acknowledgements, awaitables).
\<close>

datatype 'h call =
    Super_say pyval bool bool
      \<comment> \<open>\<open>super().say(message, allow_interruptions=, add_to_chat_ctx=)\<close>\<close>
  | Agent_init pystr
      \<comment> \<open>\<open>super().__init__(instructions=)\<close>\<close>
  | Construct config
  | AgentSession 'h 'h 'h 'h
      \<comment> \<open>stt, llm, tts, vad\<close>
  | BVC
  | RoomInputOptions 'h
  | Session_start 'h 'h assistant 'h
      \<comment> \<open>session, room, agent, room_input_options\<close>
  | Generate_reply 'h string
      \<comment> \<open>session, instructions\<close>
  | Wait_for 'h real
      \<comment> \<open>awaitable, timeout\<close>

text \<open>
  What a run leaves behind, in order: the records handed to the logger and the external
  calls with what each returned or raised.
\<close>

datatype 'h event = Log level "fpart list" | Call "'h call" "py_exception + 'h"

text \<open>
  The outside world is a state \<open>'w\<close> and a function that answers each call from it, so
  that the same call may fail once and succeed the next time.
\<close>

type_synonym ('w, 'h) environment = "'h call \<Rightarrow> 'w \<Rightarrow> (py_exception + 'h) \<times> 'w"

record ('w, 'h) st =
  trace :: "'h event list"
  world :: 'w

record ('w, 'h) turn = "('w, 'h) st" +
  self :: assistant

definition logger :: "level \<Rightarrow> fpart list \<Rightarrow> ('w, 'h, 'z) st_scheme \<Rightarrow> ('w, 'h, 'z) st_scheme" where
  "logger l m s = s\<lparr>trace := trace s @ [Log l m]\<rparr>"

definition call_ext ::
  "('w, 'h) environment \<Rightarrow> 'h call \<Rightarrow> ('w, 'h, 'z) st_scheme \<Rightarrow> (py_exception + 'h) \<times> ('w, 'h, 'z) st_scheme" where
  "call_ext ext c s =
     (case ext c (world s) of
        (r, w') \<Rightarrow> (r, s\<lparr>trace := trace s @ [Call c r], world := w'\<rparr>))"

section \<open>class Assistant\<close>

definition INSTRUCTIONS :: pystr where
  "INSTRUCTIONS =
     py_str ''You are a helpful multilingual voice AI assistant. '' @ [10] @
     py_str ''            You understand English and Hindi/Urdu speech input.'' @ [10] @
     py_str ''            '' @ [10] @
     py_str ''            CRITICAL LANGUAGE HANDLING RULES:'' @ [10] @
     py_str ''            1. If the user speaks in English, respond ONLY in English'' @ [10] @
     py_str ''            2. If the user speaks in Urdu (which appears as Hindi text), respond ONLY in Urdu script (Arabic script)'' @ [10] @
     py_str ''            3. Choose ONE language per response - never mix languages'' @ [10] @
     py_str ''            4. ALWAYS acknowledge what the user said and provide a helpful response'' @ [10] @
     py_str ''        '' @ [10] @
     py_str ''            '' @ [10] @
     py_str ''            LANGUAGE DETECTION:'' @ [10] @
     py_str ''            - English input = English text in Latin script'' @ [10] @
     py_str ''            - Urdu input = Hindi text in Devanagari script ('' @ [2310, 2346] @ py_str '', '' @ [2325, 2376, 2360, 2375] @ py_str '', etc.) - this represents Urdu speech transcribed as Hindi'' @ [10] @
     py_str ''            '' @ [10] @
     py_str ''            URDU RESPONSE GUIDELINES (when input is Hindi script):'' @ [10] @
     py_str ''            - Write in proper Urdu script using Arabic alphabet'' @ [10] @
     py_str ''            - Use Pakistani Urdu vocabulary and expressions naturally'' @ [10] @
     py_str ''            - Use respectful forms like '' @ [34, 1570, 1662, 34] @ py_str '' (aap) '' @ [10] @
     py_str ''            - Use Pakistani Urdu expressions like '' @ [34, 1576, 1575, 1604, 1705, 1604, 34] @ py_str '' (bilkul), '' @ [34, 1590, 1585, 1608, 1585, 34] @ py_str '' (zaroor), '' @ [34, 1605, 1575, 1588, 1575, 1569, 1575, 1604, 1604, 1729, 34] @ py_str '' (mashallah)'' @ [10] @
     py_str ''            - Use '' @ [34, 1605, 1740, 1722, 34] @ py_str '' (main) for '' @ [34] @ py_str ''I'' @ [34, 10] @
     py_str ''            - Use respectful forms and Pakistani cultural references'' @ [10] @
     py_str ''            - Keep responses natural and conversational'' @ [10] @
     py_str ''            - Always use short, clear sentences for better TTS pronunciation'' @ [10] @
     py_str ''            '' @ [10] @
     py_str ''            Examples:'' @ [10] @
     py_str ''            - User (English): '' @ [34] @ py_str ''How are you?'' @ [34] @ py_str '' '' @ [8594] @ py_str '' Response (English): '' @ [34] @ py_str ''I'' @ [39] @ py_str ''m doing great! How can I help you today?'' @ [34, 10] @
     py_str ''            - User (Hindi): '' @ [34, 2310, 2346] @ py_str '' '' @ [2325, 2376, 2360, 2375] @ py_str '' '' @ [2361, 2376, 2306] @ py_str ''?'' @ [34] @ py_str '' '' @ [8594] @ py_str '' Response (Urdu): '' @ [34, 1605, 1740, 1722] @ py_str '' '' @ [1576, 1575, 1604, 1705, 1604] @ py_str '' '' @ [1657, 1726, 1740, 1705] @ py_str '' '' @ [1729, 1608, 1722] @ py_str ''! '' @ [1570, 1662] @ py_str '' '' @ [1705, 1740, 1587, 1746] @ py_str '' '' @ [1729, 1740, 1722, 1567] @ py_str '' '' @ [1705, 1740, 1575] @ py_str '' '' @ [1605, 1583, 1583] @ py_str '' '' @ [1670, 1575, 1729, 1740, 1746, 1567, 34, 10] @
     py_str ''            - User (Hindi): '' @ [34, 2325, 2381, 2351, 2366] @ py_str '' '' @ [2361, 2366, 2354] @ py_str '' '' @ [2361, 2376] @ py_str ''?'' @ [34] @ py_str '' '' @ [8594] @ py_str '' Response (Urdu): '' @ [34, 1587, 1576] @ py_str '' '' @ [1657, 1726, 1740, 1705] @ py_str '' '' @ [1729, 1746] @ py_str ''! '' @ [1570, 1662] @ py_str '' '' @ [1576, 1578, 1575, 1574, 1740, 1746] @ py_str '' '' @ [1705, 1740, 1575] @ py_str '' '' @ [1705, 1575, 1605] @ py_str '' '' @ [1729, 1746, 1567, 34, 10] @
     py_str ''            - User (English): '' @ [34] @ py_str ''Hello'' @ [34] @ py_str '' '' @ [8594] @ py_str '' Response (English): '' @ [34] @ py_str ''Hello! How can I assist you today?'' @ [34, 10] @
     py_str ''            - User (Hindi): '' @ [34, 2344, 2350, 2360, 2381, 2340, 2375, 34] @ py_str '' '' @ [8594] @ py_str '' Response (Urdu): '' @ [34, 1570, 1583, 1575, 1576] @ py_str ''! '' @ [1605, 1740, 1722] @ py_str '' '' @ [1570, 1662] @ py_str '' '' @ [1705, 1740] @ py_str '' '' @ [1705, 1740, 1575] @ py_str '' '' @ [1605, 1583, 1583] @ py_str '' '' @ [1705, 1585] @ py_str '' '' @ [1587, 1705, 1578, 1575] @ py_str '' '' @ [1729, 1608, 1722, 1567, 34, 10] @
     py_str ''            '' @ [10] @
     py_str ''            IMPORTANT: '' @ [10] @
     py_str ''            - Hindi script input (Devanagari) = User spoke Urdu '' @ [8594] @ py_str '' Respond in Urdu script'' @ [10] @
     py_str ''            - English script input = User spoke English '' @ [8594] @ py_str '' Respond in English'' @ [10] @
     py_str ''            - Be natural, helpful, and culturally appropriate for Pakistani Urdu speakers'' @ [10] @
     py_str ''            - Always speak in short sentences for optimal TTS performance''"

text \<open>\<open>Assistant.__init__\<close>\<close>

definition Assistant_init ::
  "('w, 'h) environment \<Rightarrow> ('w, 'h) st \<Rightarrow> (py_exception + assistant) \<times> ('w, 'h) st" where
  "Assistant_init ext s =
     (case call_ext ext (Agent_init INSTRUCTIONS) s of
        (Inl e, s1) \<Rightarrow> (Inl e, s1)
      | (Inr _, s1) \<Rightarrow>
          (Inr \<lparr>instructions = INSTRUCTIONS,
                user_language_preference = py_str ''english'',
                conversation_history = []\<rparr>, s1))"

text \<open>\<open>Assistant._is_hindi_input\<close>: the body of the \<open>try\<close>, then the method.\<close>

definition is_hindi_input_try :: "pyval \<Rightarrow> py_exception + bool" where
  "is_hindi_input_try user_input =
     (if \<not> truthy user_input then Inr False
      else case py_strip user_input of
          Inl e \<Rightarrow> Inl e
        | Inr t \<Rightarrow>
            if t = PStr [] then Inr False
            else py_any_char (\<lambda>char. 0x0900 \<le> char \<and> char \<le> 0x097F) user_input)"

definition is_hindi_input ::
  "pyval \<Rightarrow> ('w, 'h) turn \<Rightarrow> (py_exception + bool) \<times> ('w, 'h) turn" where
  "is_hindi_input user_input s =
     (case is_hindi_input_try user_input of
        Inr has_devanagari \<Rightarrow> (Inr has_devanagari, s)
      | Inl e \<Rightarrow>
          if is_Exception e
          then (Inr False, logger WARNING [Lit ''Hindi detection error: '', Exc e] s)
          else (Inl e, s))"

text \<open>\<open>Assistant._is_urdu_script\<close>\<close>

definition is_urdu_script_try :: "pyval \<Rightarrow> py_exception + bool" where
  "is_urdu_script_try text =
     (if \<not> truthy text then Inr False
      else case py_strip text of
          Inl e \<Rightarrow> Inl e
        | Inr t \<Rightarrow>
            if t = PStr [] then Inr False
            else py_any_char (\<lambda>char.
                   (0x0600 \<le> char \<and> char \<le> 0x06FF) \<or>
                   (0x0750 \<le> char \<and> char \<le> 0x077F) \<or>
                   (0x08A0 \<le> char \<and> char \<le> 0x08FF) \<or>
                   (0xFB50 \<le> char \<and> char \<le> 0xFDFF) \<or>
                   (0xFE70 \<le> char \<and> char \<le> 0xFEFF)) text)"

definition is_urdu_script ::
  "pyval \<Rightarrow> ('w, 'h) turn \<Rightarrow> (py_exception + bool) \<times> ('w, 'h) turn" where
  "is_urdu_script text s =
     (case is_urdu_script_try text of
        Inr has_arabic_script \<Rightarrow> (Inr has_arabic_script, s)
      | Inl e \<Rightarrow>
          if is_Exception e
          then (Inr False, logger WARNING [Lit ''Urdu script detection error: '', Exc e] s)
          else (Inl e, s))"

text \<open>\<open>Assistant._should_respond_in_urdu\<close>\<close>

definition should_respond_in_urdu ::
  "pyval \<Rightarrow> ('w, 'h) turn \<Rightarrow> (py_exception + bool) \<times> ('w, 'h) turn" where
  "should_respond_in_urdu user_input s = is_hindi_input user_input s"

text \<open>
  \<open>Assistant.say\<close>: the body of the outer \<open>try\<close>, then the method with its two
  handlers.  The method returns what the inherited \<open>say\<close> returned, or \<open>None\<close> when
  the inner handler swallowed the second failure.
\<close>

definition fallback_msg :: pystr where
  "fallback_msg = py_str ''I'm having trouble responding. Please try again.''"

definition say_try ::
  "('w, 'h) environment \<Rightarrow> pyval \<Rightarrow> bool \<Rightarrow> bool \<Rightarrow> ('w, 'h) turn \<Rightarrow> (py_exception + 'h) \<times> ('w, 'h) turn" where
  "say_try ext message allow_interruptions add_to_chat_ctx s =
     (case is_hindi_input message s of
        (Inl e, s1) \<Rightarrow> (Inl e, s1)
      | (Inr is_hindi, s1) \<Rightarrow>
     (case is_urdu_script message s1 of
        (Inl e, s2) \<Rightarrow> (Inl e, s2)
      | (Inr is_urdu_response, s2) \<Rightarrow>
     (let lang_indicator =
            (if is_urdu_response then ''Urdu''
             else if is_hindi then ''English (from Hindi input)''
             else ''English'')
      in case py_slice_100 message of
        Inl e \<Rightarrow> (Inl e, s2)
      | Inr m \<Rightarrow>
          call_ext ext (Super_say message allow_interruptions add_to_chat_ctx)
            (logger INFO [Lit ''Assistant responding in '', Lit lang_indicator,
                          Lit '': '', Val m, Lit ''...''] s2))))"

definition say ::
  "('w, 'h) environment \<Rightarrow> pyval \<Rightarrow> bool \<Rightarrow> bool \<Rightarrow> ('w, 'h) turn \<Rightarrow>
     (py_exception + 'h option) \<times> ('w, 'h) turn" where
  "say ext message allow_interruptions add_to_chat_ctx s =
     (case say_try ext message allow_interruptions add_to_chat_ctx s of
        (Inr ack, s1) \<Rightarrow> (Inr (Some ack), s1)
      | (Inl e, s1) \<Rightarrow>
          if \<not> is_Exception e then (Inl e, s1)
          else
            (case call_ext ext (Super_say (PStr fallback_msg) allow_interruptions add_to_chat_ctx)
                    (logger ERROR [Lit ''Error in say method: '', Exc e] s1) of
               (Inr ack, s2) \<Rightarrow> (Inr (Some ack), s2)
             | (Inl e2, s2) \<Rightarrow> (Inr None, s2)))"

text \<open>
  A caller of the assistant makes any sequence of these calls; an exception that a
  call raises ends that call only.
\<close>

datatype op =
    Op_is_hindi_input pyval
  | Op_is_urdu_script pyval
  | Op_should_respond_in_urdu pyval
  | Op_say pyval bool bool

fun step :: "('w, 'h) environment \<Rightarrow> op \<Rightarrow> ('w, 'h) turn \<Rightarrow> ('w, 'h) turn" where
  "step ext (Op_is_hindi_input v) s = snd (is_hindi_input v s)"
| "step ext (Op_is_urdu_script v) s = snd (is_urdu_script v s)"
| "step ext (Op_should_respond_in_urdu v) s = snd (should_respond_in_urdu v s)"
| "step ext (Op_say m ai ac) s = snd (say ext m ai ac s)"

definition run :: "('w, 'h) environment \<Rightarrow> op list \<Rightarrow> ('w, 'h) turn \<Rightarrow> ('w, 'h) turn" where
  "run ext ops s = fold (step ext) ops s"

section \<open>entrypoint\<close>

text \<open>\<open>not v\<close> for what \<open>os.getenv\<close> returns: \<open>None\<close> or a \<open>str\<close>.\<close>

definition falsy :: "pystr option \<Rightarrow> bool" where
  "falsy v \<longleftrightarrow> v = None \<or> v = Some []"

text \<open>
  How a block of the function body ends: it falls through with the variable it bound,
  it executes \<open>return\<close>, or an exception leaves it.
\<close>

datatype 'a flow = Value 'a | Returned | Raised py_exception

text \<open>Lines 163-185: the speech-to-text slot.\<close>

definition init_stt ::
  "('w, 'h) environment \<Rightarrow> pystr option \<Rightarrow> ('w, 'h) st \<Rightarrow> 'h flow \<times> ('w, 'h) st" where
  "init_stt ext groq_key s =
     (case call_ext ext (Construct (Groq_STT ''whisper-large-v3-turbo'' groq_key ''auto'' True)) s of
        (Inr stt, s1) \<Rightarrow> (Value stt, logger INFO [Lit ''STT initialized''] s1)
      | (Inl e, s1) \<Rightarrow>
          if \<not> is_Exception e then (Raised e, s1)
          else
            (case call_ext ext (Construct (Deepgram_STT ''nova-3'' ''multi'' True True True)) s1 of
               (Inr stt, s2) \<Rightarrow> (Value stt, logger INFO [Lit ''STT initialized''] s2)
             | (Inl e, s2) \<Rightarrow>
                 if \<not> is_Exception e then (Raised e, s2)
                 else (Returned, logger ERROR [Lit ''STT initialization failed: '', Exc e] s2)))"

text \<open>Lines 189-199: the language-model slot.\<close>

definition init_llm ::
  "('w, 'h) environment \<Rightarrow> ('w, 'h) st \<Rightarrow> 'h flow \<times> ('w, 'h) st" where
  "init_llm ext s =
     (case call_ext ext (Construct (Groq_LLM ''qwen/qwen3-32b'')) s of
        (Inr llm, s1) \<Rightarrow> (Value llm, logger INFO [Lit ''LLM initialized with Urdu-optimized model''] s1)
      | (Inl e, s1) \<Rightarrow>
          if \<not> is_Exception e then (Raised e, s1)
          else
            (case call_ext ext (Construct (Groq_LLM ''llama-3.3-70b-versatile''))
                    (logger WARNING [Lit ''Urdu-optimized LLM failed, trying fallback: '', Exc e] s1) of
               (Inr llm, s2) \<Rightarrow> (Value llm, logger INFO [Lit ''LLM initialized with fallback model''] s2)
             | (Inl fallback_e, s2) \<Rightarrow>
                 if \<not> is_Exception fallback_e then (Raised fallback_e, s2)
                 else (Returned,
                       logger ERROR [Lit ''LLM initialization failed completely: '', Exc fallback_e] s2)))"

text \<open>Lines 201-224: the text-to-speech slot.\<close>

definition init_tts ::
  "('w, 'h) environment \<Rightarrow> pystr option \<Rightarrow> pystr option \<Rightarrow> ('w, 'h) st \<Rightarrow> 'h flow \<times> ('w, 'h) st" where
  "init_tts ext azure_key azure_region s =
     (case call_ext ext
             (Construct (Azure_TTS azure_key azure_region ''ur-PK-AsadNeural'' (Some ''ur-PK'') 24000)) s of
        (Inr tts, s1) \<Rightarrow> (Value tts, logger INFO [Lit ''TTS initialized with Hindi voice''] s1)
      | (Inl e, s1) \<Rightarrow>
          if \<not> is_Exception e then (Raised e, s1)
          else
            (case call_ext ext
                    (Construct (Azure_TTS azure_key azure_region ''en-US-AriaNeural'' None 24000))
                    (logger ERROR [Lit ''TTS initialization failed: '', Exc e] s1) of
               (Inr tts, s2) \<Rightarrow>
                 (Value tts, logger INFO [Lit ''TTS initialized with fallback English voice''] s2)
             | (Inl fallback_e, s2) \<Rightarrow>
                 if \<not> is_Exception fallback_e then (Raised fallback_e, s2)
                 else (Returned, logger ERROR [Lit ''TTS fallback failed: '', Exc fallback_e] s2)))"

text \<open>Lines 226-240: the voice-activity-detection slot.\<close>

definition init_vad ::
  "('w, 'h) environment \<Rightarrow> ('w, 'h) st \<Rightarrow> 'h flow \<times> ('w, 'h) st" where
  "init_vad ext s =
     (case call_ext ext (Construct (Silero_VAD_load (Some 0.5) (Some 0.3))) s of
        (Inr vad, s1) \<Rightarrow> (Value vad, logger INFO [Lit ''VAD initialized with multilingual settings''] s1)
      | (Inl e, s1) \<Rightarrow>
          if \<not> is_Exception e then (Raised e, s1)
          else
            (case call_ext ext (Construct (Silero_VAD_load None None)) s1 of
               (Inr vad, s2) \<Rightarrow> (Value vad, logger INFO [Lit ''VAD initialized with default settings''] s2)
             | (Inl fallback_e, s2) \<Rightarrow>
                 if \<not> is_Exception fallback_e then (Raised fallback_e, s2)
                 else (Returned,
                       logger ERROR [Lit ''VAD initialization failed completely: '', Exc fallback_e] s2)))"

text \<open>Lines 262-271: the initial greeting, awaited under a timeout.\<close>

definition greeting_instructions :: string where
  "greeting_instructions =
     ''Greet the user warmly in English, mentioning that you can speak both English and Urdu, and ask how you can help them today.''"

definition greeting_except ::
  "py_exception \<Rightarrow> ('w, 'h) st \<Rightarrow> (py_exception + unit) \<times> ('w, 'h) st" where
  "greeting_except e s =
     (if e = Asyncio_TimeoutError
      then (Inr (), logger WARNING [Lit ''Initial greeting generation timed out''] s)
      else (Inl e, s))"

definition greeting ::
  "('w, 'h) environment \<Rightarrow> 'h \<Rightarrow> ('w, 'h) st \<Rightarrow> (py_exception + unit) \<times> ('w, 'h) st" where
  "greeting ext session s =
     (case call_ext ext (Generate_reply session greeting_instructions) s of
        (Inl e, s1) \<Rightarrow> greeting_except e s1
      | (Inr reply, s1) \<Rightarrow>
          (case call_ext ext (Wait_for reply 30.0) s1 of
             (Inl e, s2) \<Rightarrow> greeting_except e s2
           | (Inr _, s2) \<Rightarrow> (Inr (), s2)))"

text \<open>Lines 242-271: the session is created, started and asked for the greeting.\<close>

definition start_session ::
  "('w, 'h) environment \<Rightarrow> 'h \<Rightarrow> assistant \<Rightarrow> 'h \<Rightarrow> 'h \<Rightarrow> 'h \<Rightarrow> 'h \<Rightarrow> ('w, 'h) st \<Rightarrow>
     (py_exception + unit) \<times> ('w, 'h) st" where
  "start_session ext room agent stt llm tts vad s =
     (case call_ext ext (AgentSession stt llm tts vad) s of
        (Inl e, s1) \<Rightarrow> (Inl e, s1)
      | (Inr session, s1) \<Rightarrow>
     (case call_ext ext BVC (logger INFO [Lit ''Session created, starting...''] s1) of
        (Inl e, s2) \<Rightarrow> (Inl e, s2)
      | (Inr bvc, s2) \<Rightarrow>
     (case call_ext ext (RoomInputOptions bvc) s2 of
        (Inl e, s3) \<Rightarrow> (Inl e, s3)
      | (Inr room_input_options, s3) \<Rightarrow>
     (case call_ext ext (Session_start session room agent room_input_options) s3 of
        (Inl e, s4) \<Rightarrow> (Inl e, s4)
      | (Inr _, s4) \<Rightarrow>
          greeting ext session
            (logger INFO [Lit ''Session started successfully - Hindi input '', Uni [0x2192],
                          Lit '' Urdu script output pipeline''] s4)))))"

text \<open>
  The body of the outer \<open>try\<close> of \<open>entrypoint\<close> (lines 139-271).  \<open>getenv\<close> is
  \<open>os.getenv\<close> and \<open>room\<close> is \<open>ctx.room\<close>.
\<close>

definition entrypoint_try ::
  "('w, 'h) environment \<Rightarrow> (string \<Rightarrow> pystr option) \<Rightarrow> 'h \<Rightarrow> ('w, 'h) st \<Rightarrow>
     (py_exception + unit) \<times> ('w, 'h) st" where
  "entrypoint_try ext getenv room s0 =
     (let s = logger INFO [Lit ''Starting agent initialization...''] s0;
          azure_key = getenv ''AZURE_SPEECH_KEY'';
          azure_region = getenv ''AZURE_SPEECH_REGION'';
          groq_key = getenv ''GROQ_API_KEY'';
          deepgram_key = getenv ''DEEPGRAM_API_KEY''
      in
        if falsy azure_key \<or> falsy azure_region
        then (Inr (), logger ERROR [Lit ''Azure Speech credentials not found in environment variables''] s)
        else if falsy groq_key
        then (Inr (), logger ERROR [Lit ''Groq API key not found in environment variables''] s)
        else if falsy deepgram_key
        then (Inr (), logger ERROR [Lit ''Deepgram API key not found in environment variables''] s)
        else
     (case Assistant_init ext s of
        (Inl e, s1) \<Rightarrow> (Inl e, s1)
      | (Inr assistant, s1) \<Rightarrow>
     (case init_stt ext groq_key (logger INFO [Lit ''Assistant created successfully''] s1) of
        (Raised e, s2) \<Rightarrow> (Inl e, s2)
      | (Returned, s2) \<Rightarrow> (Inr (), s2)
      | (Value stt, s2) \<Rightarrow>
     (case init_llm ext s2 of
        (Raised e, s3) \<Rightarrow> (Inl e, s3)
      | (Returned, s3) \<Rightarrow> (Inr (), s3)
      | (Value llm, s3) \<Rightarrow>
     (case init_tts ext azure_key azure_region s3 of
        (Raised e, s4) \<Rightarrow> (Inl e, s4)
      | (Returned, s4) \<Rightarrow> (Inr (), s4)
      | (Value tts, s4) \<Rightarrow>
     (case init_vad ext s4 of
        (Raised e, s5) \<Rightarrow> (Inl e, s5)
      | (Returned, s5) \<Rightarrow> (Inr (), s5)
      | (Value vad, s5) \<Rightarrow>
          start_session ext room assistant stt llm tts vad s5))))))"

text \<open>
  \<open>entrypoint\<close>: \<open>Inr ()\<close> is a normal return (of \<open>None\<close>); the outer handler logs an
  \<open>Exception\<close> and raises it again.
\<close>

definition entrypoint ::
  "('w, 'h) environment \<Rightarrow> (string \<Rightarrow> pystr option) \<Rightarrow> 'h \<Rightarrow> ('w, 'h) st \<Rightarrow>
     (py_exception + unit) \<times> ('w, 'h) st" where
  "entrypoint ext getenv room s0 =
     (case entrypoint_try ext getenv room s0 of
        (Inr u, s1) \<Rightarrow> (Inr u, s1)
      | (Inl e, s1) \<Rightarrow>
          if is_Exception e then (Inl e, logger ERROR [Lit ''Entrypoint error: '', Exc e] s1)
          else (Inl e, s1))"

section \<open>Vocabulary of the properties\<close>

text \<open>
  The Unicode blocks the specification names: Devanagari, and the five Arabic-script
  blocks (Arabic, Arabic Supplement, Arabic Extended-A, Arabic Presentation Forms-A and
  Forms-B).
\<close>

definition Devanagari_block :: "codepoint set" where
  "Devanagari_block = {0x0900..0x097F}"

definition Arabic_blocks :: "codepoint set" where
  "Arabic_blocks =
     {0x0600..0x06FF} \<union> {0x0750..0x077F} \<union> {0x08A0..0x08FF} \<union> {0xFB50..0xFDFF} \<union> {0xFE70..0xFEFF}"

text \<open>Events of a trace: external calls, and records logged at level \<open>ERROR\<close>.\<close>

fun is_Call :: "'h event \<Rightarrow> bool" where
  "is_Call (Call c r) = True"
| "is_Call (Log l m) = False"

fun is_error_record :: "'h event \<Rightarrow> bool" where
  "is_error_record (Log l m) = (l = ERROR)"
| "is_error_record (Call c r) = False"

text \<open>What a run from \<open>s\<close> to \<open>s'\<close> appended to the trace.\<close>

definition new_events :: "('w, 'h, 'z) st_scheme \<Rightarrow> ('w, 'h, 'z) st_scheme \<Rightarrow> 'h event list" where
  "new_events s s' = drop (length (trace s)) (trace s')"

text \<open>
  The four capability slots, the slot a configuration belongs to, and the construction
  attempts a trace records for a slot, in order, each with what it returned or raised.
\<close>

datatype slot = STT | LLM | TTS | VAD

fun slot_of :: "config \<Rightarrow> slot" where
  "slot_of (Groq_STT model api_key language detect_language) = STT"
| "slot_of (Deepgram_STT model language interim_results smart_format punctuate) = STT"
| "slot_of (Groq_LLM model) = LLM"
| "slot_of (Azure_TTS speech_key speech_region voice language sample_rate) = TTS"
| "slot_of (Silero_VAD_load min_silence_duration min_speech_duration) = VAD"

fun attempts :: "slot \<Rightarrow> 'h event list \<Rightarrow> (config \<times> (py_exception + 'h)) list" where
  "attempts sl [] = []"
| "attempts sl (Call (Construct c) r # evs) =
     (if slot_of c = sl then (c, r) # attempts sl evs else attempts sl evs)"
| "attempts sl (ev # evs) = attempts sl evs"

text \<open>An attempt that returned a handle, and one that raised.\<close>

definition succeeded :: "config \<times> (py_exception + 'h) \<Rightarrow> bool" where
  "succeeded a \<longleftrightarrow> \<not> isl (snd a)"

definition failed :: "config \<times> (py_exception + 'h) \<Rightarrow> bool" where
  "failed a \<longleftrightarrow> isl (snd a)"

text \<open>The handle a session was created with in a slot.\<close>

fun slot_arg :: "slot \<Rightarrow> 'h \<Rightarrow> 'h \<Rightarrow> 'h \<Rightarrow> 'h \<Rightarrow> 'h" where
  "slot_arg STT stt llm tts vad = stt"
| "slot_arg LLM stt llm tts vad = llm"
| "slot_arg TTS stt llm tts vad = tts"
| "slot_arg VAD stt llm tts vad = vad"

text \<open>The events in which a session object is created or started.\<close>

fun is_session_event :: "'h event \<Rightarrow> bool" where
  "is_session_event (Call (AgentSession stt llm tts vad) r) = True"
| "is_session_event (Call (Session_start session room agent opts) r) = True"
| "is_session_event ev = False"

text \<open>The events in which a reply is requested.\<close>

fun is_Generate_reply :: "'h event \<Rightarrow> bool" where
  "is_Generate_reply (Call (Generate_reply session instr) r) = True"
| "is_Generate_reply ev = False"

text \<open>The text of the error each slot logs when its last attempt has failed.\<close>

fun fatal_message :: "slot \<Rightarrow> string" where
  "fatal_message STT = ''STT initialization failed: ''"
| "fatal_message LLM = ''LLM initialization failed completely: ''"
| "fatal_message TTS = ''TTS fallback failed: ''"
| "fatal_message VAD = ''VAD initialization failed completely: ''"

text \<open>The calls to the session runtime: everything after the four slots are bound.\<close>

fun is_runtime_event :: "'h event \<Rightarrow> bool" where
  "is_runtime_event (Call (AgentSession stt llm tts vad) r) = True"
| "is_runtime_event (Call BVC r) = True"
| "is_runtime_event (Call (RoomInputOptions nc) r) = True"
| "is_runtime_event (Call (Session_start session room agent opts) r) = True"
| "is_runtime_event (Call (Generate_reply session instr) r) = True"
| "is_runtime_event (Call (Wait_for reply timeout) r) = True"
| "is_runtime_event ev = False"

text \<open>The calls of the initial greeting: requesting the reply, and awaiting it.\<close>

fun is_greeting_event :: "'h event \<Rightarrow> bool" where
  "is_greeting_event (Call (Generate_reply session instr) r) = True"
| "is_greeting_event (Call (Wait_for reply timeout) r) = True"
| "is_greeting_event ev = False"

text \<open>
  The greeting calls of a trace are none at all, or, on the session that \<open>AgentSession\<close>
  returned, one request that raised, or one request that returned a reply followed by one
  \<open>wait_for\<close> on that very reply with timeout 30.
\<close>

definition greeting_bounded :: "'h event list \<Rightarrow> bool" where
  "greeting_bounded T \<longleftrightarrow>
     filter is_greeting_event T = [] \<or>
     (\<exists>sess stt llm tts vad. Call (AgentSession stt llm tts vad) (Inr sess) \<in> set T \<and>
        ((\<exists>e. filter is_greeting_event T =
               [Call (Generate_reply sess greeting_instructions) (Inl e)]) \<or>
         (\<exists>reply res. filter is_greeting_event T =
               [Call (Generate_reply sess greeting_instructions) (Inr reply),
                Call (Wait_for reply 30) res])))"

text \<open>Once a session has been started, its greeting is requested.\<close>

definition greeting_requested :: "'h event list \<Rightarrow> bool" where
  "greeting_requested T \<longleftrightarrow>
     (\<forall>sess rm agent opts u. Call (Session_start sess rm agent opts) (Inr u) \<in> set T \<longrightarrow>
        (\<exists>rr. Call (Generate_reply sess greeting_instructions) rr \<in> set T))"

subsection \<open>What each stage of the bootstrap leaves in the trace\<close>

text \<open>
  The events \<open>evs\<close> of the block of slot \<open>sl\<close> that ended as \<open>fl\<close>: they touch no
  other slot and no session; an attempt is followed by another one only when it failed;
  the block binds the handle of its last attempt, returns after two failures of class
  \<open>Exception\<close> with the slot's error as its last event, or is left by the exception of
  its last attempt when that is not an \<open>Exception\<close>.
\<close>

definition slot_block :: "slot \<Rightarrow> 'h flow \<Rightarrow> 'h event list \<Rightarrow> bool" where
  "slot_block sl fl evs \<longleftrightarrow>
     (\<forall>sl'. sl' \<noteq> sl \<longrightarrow> attempts sl' evs = []) \<and>
     (\<forall>ev\<in>set evs. \<not> is_runtime_event ev) \<and>
     (\<forall>x\<in>set (butlast (attempts sl evs)). failed x) \<and>
     attempts sl evs \<noteq> [] \<and>
     (case fl of
        Value h \<Rightarrow> snd (last (attempts sl evs)) = Inr h
      | Returned \<Rightarrow>
          (\<exists>c1 e1 c2 e2. attempts sl evs = [(c1, Inl e1), (c2, Inl e2)] \<and> is_Exception e2 \<and>
             last evs = Log ERROR [Lit (fatal_message sl), Exc e2])
      | Raised e \<Rightarrow> \<not> is_Exception e \<and> snd (last (attempts sl evs)) = Inl e)"

text \<open>
  The trace \<open>T\<close> once the slots in \<open>B\<close> are bound to the handles \<open>H\<close> and the other
  slots have not been tried.
\<close>

definition boot_inv :: "slot set \<Rightarrow> (slot \<Rightarrow> 'h) \<Rightarrow> 'h event list \<Rightarrow> bool" where
  "boot_inv B H T \<longleftrightarrow>
     (\<forall>ev\<in>set T. \<not> is_runtime_event ev) \<and>
     (\<forall>sl. if sl \<in> B
           then attempts sl T \<noteq> [] \<and> snd (last (attempts sl T)) = Inr (H sl) \<and>
                (\<forall>x\<in>set (butlast (attempts sl T)). failed x)
           else attempts sl T = [])"

text \<open>The events \<open>post\<close> of lines 242-271, run with the four handles, that ended as \<open>r\<close>.\<close>

definition session_block ::
  "'h \<Rightarrow> 'h \<Rightarrow> 'h \<Rightarrow> 'h \<Rightarrow> py_exception + unit \<Rightarrow> 'h event list \<Rightarrow> bool" where
  "session_block stt llm tts vad r post \<longleftrightarrow>
     (\<forall>sl. attempts sl post = []) \<and>
     (\<forall>a b c d res. Call (AgentSession a b c d) res \<in> set post \<longrightarrow>
        a = stt \<and> b = llm \<and> c = tts \<and> d = vad) \<and>
     (\<forall>aw t res. Call (Wait_for aw t) res \<in> set post \<longrightarrow> t = 30) \<and>
     (\<forall>aw t. Call (Wait_for aw t) (Inl Asyncio_TimeoutError) \<in> set post \<longrightarrow>
        r = Inr () \<and>
        last post = Log WARNING [Lit ''Initial greeting generation timed out''] \<and>
        length (filter is_Generate_reply post) = 1) \<and>
     greeting_bounded post \<and> greeting_requested post"

text \<open>What holds of the result \<open>r\<close> and the events \<open>T\<close> of a whole run of the entry point.\<close>

definition boot_facts :: "py_exception + unit \<Rightarrow> 'h event list \<Rightarrow> bool" where
  "boot_facts r T \<longleftrightarrow>
     (\<forall>sl. \<forall>x\<in>set (butlast (attempts sl T)). failed x) \<and>
     (\<forall>stt llm tts vad res sl. Call (AgentSession stt llm tts vad) res \<in> set T \<longrightarrow>
        attempts sl T \<noteq> [] \<and> snd (last (attempts sl T)) = Inr (slot_arg sl stt llm tts vad)) \<and>
     (\<forall>sl. (\<exists>ev\<in>set T. is_runtime_event ev) \<longrightarrow>
        attempts sl T \<noteq> [] \<and> succeeded (last (attempts sl T))) \<and>
     (\<forall>sl c1 e1 c2 e2. attempts sl T = [(c1, Inl e1), (c2, Inl e2)] \<and> is_Exception e2 \<longrightarrow>
        r = Inr () \<and> last T = Log ERROR [Lit (fatal_message sl), Exc e2]) \<and>
     (\<forall>aw t res. Call (Wait_for aw t) res \<in> set T \<longrightarrow> t = 30) \<and>
     (\<forall>aw t. Call (Wait_for aw t) (Inl Asyncio_TimeoutError) \<in> set T \<longrightarrow>
        r = Inr () \<and>
        last T = Log WARNING [Lit ''Initial greeting generation timed out''] \<and>
        length (filter is_Generate_reply T) = 1) \<and>
     greeting_bounded T \<and> greeting_requested T"

subsection \<open>Concrete inputs\<close>

text \<open>A freshly constructed assistant in an empty trace, and some environments.\<close>

definition assistant0 :: assistant where
  "assistant0 = \<lparr>instructions = INSTRUCTIONS, user_language_preference = py_str ''english'',
                  conversation_history = []\<rparr>"

definition turn0 :: "(unit, nat) turn" where
  "turn0 = \<lparr>trace = [], world = (), self = assistant0\<rparr>"

definition turn1 :: "(nat, nat) turn" where
  "turn1 = \<lparr>trace = [], world = 0, self = assistant0\<rparr>"

text \<open>Every call succeeds.\<close>

definition env_ok :: "(unit, nat) environment" where
  "env_ok c w = (Inr 0, w)"

text \<open>The first call raises \<open>RuntimeError\<close>, every later call returns \<open>7\<close>.\<close>

definition env_fail_once :: "(nat, nat) environment" where
  "env_fail_once c w = (if w = 0 then (Inl RuntimeError, 1) else (Inr 7, Suc w))"

text \<open>The task is cancelled while the call is awaited.\<close>

definition env_cancelled :: "(unit, nat) environment" where
  "env_cancelled c w = (Inl CancelledError, w)"

text \<open>The process is interrupted during the call.\<close>

definition env_interrupted :: "(unit, nat) environment" where
  "env_interrupted c w = (Inl KeyboardInterrupt, w)"

text \<open>An empty trace at process start, and the environment variables.\<close>

definition st0 :: "(unit, nat) st" where
  "st0 = \<lparr>trace = [], world = ()\<rparr>"

definition getenv_full :: "string \<Rightarrow> pystr option" where
  "getenv_full name =
     (if name = ''AZURE_SPEECH_KEY'' then Some (py_str ''k1'')
      else if name = ''AZURE_SPEECH_REGION'' then Some (py_str ''eastus'')
      else if name = ''GROQ_API_KEY'' then Some (py_str ''k2'')
      else if name = ''DEEPGRAM_API_KEY'' then Some (py_str ''k3'')
      else None)"

text \<open>No variable is set; and only the Azure pair is set.\<close>

definition getenv_none :: "string \<Rightarrow> pystr option" where
  "getenv_none name = None"

definition getenv_azure_only :: "string \<Rightarrow> pystr option" where
  "getenv_azure_only name =
     (if name = ''AZURE_SPEECH_KEY'' then Some (py_str ''k1'')
      else if name = ''AZURE_SPEECH_REGION'' then Some (py_str ''eastus'')
      else None)"

text \<open>Everything but the Deepgram key is set.\<close>

definition getenv_no_deepgram :: "string \<Rightarrow> pystr option" where
  "getenv_no_deepgram name = (if name = ''DEEPGRAM_API_KEY'' then None else getenv_full name)"


text \<open>Both text-to-speech voices are refused.\<close>

fun env_tts_down :: "(unit, nat) environment" where
  "env_tts_down (Construct (Azure_TTS speech_key speech_region voice language sample_rate)) w =
     (Inl ValueError, w)"
| "env_tts_down c w = (Inr 0, w)"

text \<open>The first speech-to-text backend is unreachable, the second is interrupted.\<close>

fun env_stt_interrupted :: "(unit, nat) environment" where
  "env_stt_interrupted (Construct (Groq_STT model api_key language detect_language)) w =
     (Inl ConnectionError, w)"
| "env_stt_interrupted (Construct (Deepgram_STT model language interim_results smart_format punctuate)) w =
     (Inl KeyboardInterrupt, w)"
| "env_stt_interrupted c w = (Inr 0, w)"

text \<open>Everything succeeds, but the greeting does not arrive in time.\<close>

fun env_greeting_timeout :: "(unit, nat) environment" where
  "env_greeting_timeout (Wait_for reply timeout) w = (Inl Asyncio_TimeoutError, w)"
| "env_greeting_timeout (AgentSession stt llm tts vad) w = (Inr 3, w)"
| "env_greeting_timeout (Generate_reply session instr) w = (Inr 5, w)"
| "env_greeting_timeout c w = (Inr 0, w)"

section \<open>Script classification\<close>

text \<open>\<open>s.strip() == ""\<close> holds exactly when every code point of \<open>s\<close> is whitespace.\<close>

lemma strip_Nil_iff: "strip sp s = [] \<longleftrightarrow> (\<forall>c\<in>set s. sp c)"
proof -
  have "dropWhile sp (rev (dropWhile sp s)) = [] \<longleftrightarrow> dropWhile sp s = []"
  proof
    assume a: "dropWhile sp (rev (dropWhile sp s)) = []"
    show "dropWhile sp s = []"
    proof (rule ccontr)
      assume n: "dropWhile sp s \<noteq> []"
      then have "\<not> sp (hd (dropWhile sp s))" by (rule hd_dropWhile)
      moreover from n have "hd (dropWhile sp s) \<in> set (rev (dropWhile sp s))" by simp
      moreover from a have "\<forall>x\<in>set (rev (dropWhile sp s)). sp x"
        by (simp only: dropWhile_eq_Nil_conv)
      ultimately show False by blast
    qed
  next
    assume "dropWhile sp s = []"
    then show "dropWhile sp (rev (dropWhile sp s)) = []" by (simp only: rev.simps dropWhile.simps)
  qed
  moreover have "strip sp s = [] \<longleftrightarrow> dropWhile sp (rev (dropWhile sp s)) = []"
    by (simp only: strip_def rev_is_Nil_conv)
  moreover have "dropWhile sp s = [] \<longleftrightarrow> (\<forall>c\<in>set s. sp c)"
    by (simp only: dropWhile_eq_Nil_conv)
  ultimately show ?thesis by blast
qed

lemma Devanagari_not_space: "c \<in> Devanagari_block \<Longrightarrow> \<not> is_space c"
  by (simp add: Devanagari_block_def is_space_def)

lemma Arabic_not_space: "c \<in> Arabic_blocks \<Longrightarrow> \<not> is_space c"
  by (auto simp add: Arabic_blocks_def is_space_def)

lemma space_not_script: "is_space c \<Longrightarrow> c \<notin> Devanagari_block \<and> c \<notin> Arabic_blocks"
  using Devanagari_not_space Arabic_not_space by blast

text \<open>On a \<open>str\<close> both predicates return without logging, and test for presence.\<close>

lemma is_hindi_input_try_str:
  "is_hindi_input_try (PStr s) = Inr (\<exists>c\<in>set s. c \<in> Devanagari_block)"
  using Devanagari_not_space
  by (auto simp add: is_hindi_input_try_def strip_Nil_iff list_ex_iff Devanagari_block_def)

lemma is_urdu_script_try_str:
  "is_urdu_script_try (PStr s) = Inr (\<exists>c\<in>set s. c \<in> Arabic_blocks)"
proof (cases "\<exists>c\<in>set s. c \<in> Arabic_blocks")
  case True
  then obtain c where c: "c \<in> set s" "c \<in> Arabic_blocks" by blast
  then have "\<not> is_space c" by (simp add: Arabic_not_space)
  with c have "strip is_space s \<noteq> []" "s \<noteq> []" by (auto simp add: strip_Nil_iff)
  moreover from c have "list_ex (\<lambda>char.
                   (0x0600 \<le> char \<and> char \<le> 0x06FF) \<or>
                   (0x0750 \<le> char \<and> char \<le> 0x077F) \<or>
                   (0x08A0 \<le> char \<and> char \<le> 0x08FF) \<or>
                   (0xFB50 \<le> char \<and> char \<le> 0xFDFF) \<or>
                   (0xFE70 \<le> char \<and> char \<le> 0xFEFF)) s"
    unfolding list_ex_iff Arabic_blocks_def by (intro bexI[of _ c]) auto
  ultimately show ?thesis using True by (simp add: is_urdu_script_try_def)
next
  case False
  then have "\<not> list_ex (\<lambda>char.
                   (0x0600 \<le> char \<and> char \<le> 0x06FF) \<or>
                   (0x0750 \<le> char \<and> char \<le> 0x077F) \<or>
                   (0x08A0 \<le> char \<and> char \<le> 0x08FF) \<or>
                   (0xFB50 \<le> char \<and> char \<le> 0xFDFF) \<or>
                   (0xFE70 \<le> char \<and> char \<le> 0xFEFF)) s"
    unfolding list_ex_iff Arabic_blocks_def by auto
  with False show ?thesis by (simp add: is_urdu_script_try_def)
qed

lemma is_hindi_input_str:
  "is_hindi_input (PStr s) st = (Inr (\<exists>c\<in>set s. c \<in> Devanagari_block), st)"
  by (simp add: is_hindi_input_def is_hindi_input_try_str)

lemma is_urdu_script_str:
  "is_urdu_script (PStr s) st = (Inr (\<exists>c\<in>set s. c \<in> Arabic_blocks), st)"
  by (simp add: is_urdu_script_def is_urdu_script_try_str)

text \<open>
  Claim C3.  On every string, \<open>_is_hindi_input\<close> answers \<open>True\<close> exactly when at least
  one code point lies in the Devanagari block, and \<open>_is_urdu_script\<close> answers \<open>True\<close>
  exactly when at least one code point lies in one of the five Arabic-script blocks;
  neither logs nor changes anything.  Hence: an empty or whitespace-only string has
  neither script; a string with a Devanagari code point is Devanagari whatever else it
  contains; a string with no Devanagari code point and an Arabic-block code point is not
  Devanagari and is Arabic script; and a string with no code point of these blocks is
  neither.  The tests are on single code points anywhere in the string, not on words.
\<close>

theorem classify_script:
  "is_hindi_input (PStr s) st = (Inr (\<exists>c\<in>set s. c \<in> Devanagari_block), st) \<and>
   is_urdu_script (PStr s) st = (Inr (\<exists>c\<in>set s. c \<in> Arabic_blocks), st) \<and>
   (s = [] \<or> (\<forall>c\<in>set s. is_space c) \<longrightarrow>
      is_hindi_input (PStr s) st = (Inr False, st) \<and> is_urdu_script (PStr s) st = (Inr False, st)) \<and>
   ((\<exists>c\<in>set s. c \<in> Devanagari_block) \<longrightarrow> is_hindi_input (PStr s) st = (Inr True, st)) \<and>
   ((\<forall>c\<in>set s. c \<notin> Devanagari_block) \<and> (\<exists>c\<in>set s. c \<in> Arabic_blocks) \<longrightarrow>
      is_hindi_input (PStr s) st = (Inr False, st) \<and> is_urdu_script (PStr s) st = (Inr True, st)) \<and>
   ((\<forall>c\<in>set s. c \<notin> Devanagari_block \<and> c \<notin> Arabic_blocks) \<longrightarrow>
      is_hindi_input (PStr s) st = (Inr False, st) \<and> is_urdu_script (PStr s) st = (Inr False, st))"
  using space_not_script by (auto simp add: is_hindi_input_str is_urdu_script_str)

theorem classify_script_witness:
  "is_hindi_input (PStr [0x20, 0x09]) turn0 = (Inr False, turn0) \<and>
   is_urdu_script (PStr [0x20, 0x09]) turn0 = (Inr False, turn0) \<and>
   is_hindi_input (PStr (py_str ''ok '' @ [0x0906, 0x092A])) turn0 = (Inr True, turn0) \<and>
   is_hindi_input (PStr (py_str ''ok '' @ [0x0622, 0x067E])) turn0 = (Inr False, turn0) \<and>
   is_urdu_script (PStr (py_str ''ok '' @ [0x0622, 0x067E])) turn0 = (Inr True, turn0) \<and>
   is_hindi_input (PStr (py_str ''Hello'')) turn0 = (Inr False, turn0) \<and>
   is_urdu_script (PStr (py_str ''Hello'')) turn0 = (Inr False, turn0)"
proof -
  have a: "[0x20, 0x09] = [] \<or> (\<forall>c\<in>set [0x20, 0x09]. is_space c)"
    by (simp add: is_space_def)
  have b: "\<exists>c\<in>set (py_str ''ok '' @ [0x0906, 0x092A]). c \<in> Devanagari_block"
    by (simp add: Devanagari_block_def)
  have c: "(\<forall>c\<in>set (py_str ''ok '' @ [0x0622, 0x067E]). c \<notin> Devanagari_block) \<and>
           (\<exists>c\<in>set (py_str ''ok '' @ [0x0622, 0x067E]). c \<in> Arabic_blocks)"
    by (simp add: Devanagari_block_def Arabic_blocks_def py_str_def)
  have d: "\<forall>c\<in>set (py_str ''Hello''). c \<notin> Devanagari_block \<and> c \<notin> Arabic_blocks"
    by (simp add: Devanagari_block_def Arabic_blocks_def py_str_def)
  note w = classify_script [of "[0x20, 0x09]" turn0, THEN conjunct2, THEN conjunct2, THEN conjunct1]
  note dv = classify_script [of "py_str ''ok '' @ [0x0906, 0x092A]" turn0,
      THEN conjunct2, THEN conjunct2, THEN conjunct2, THEN conjunct1]
  note ar = classify_script [of "py_str ''ok '' @ [0x0622, 0x067E]" turn0,
      THEN conjunct2, THEN conjunct2, THEN conjunct2, THEN conjunct2, THEN conjunct1]
  note no = classify_script [of "py_str ''Hello''" turn0,
      THEN conjunct2, THEN conjunct2, THEN conjunct2, THEN conjunct2, THEN conjunct2]
  from w [THEN mp, OF a] dv [THEN mp, OF b] ar [THEN mp, OF c] no [THEN mp, OF d]
  show ?thesis by (intro conjI) (erule conjunct1 conjunct2 | assumption)+
qed

section \<open>The routing decision\<close>

lemma is_hindi_input_fst:
  "fst (is_hindi_input v st) =
     (case is_hindi_input_try v of Inr b \<Rightarrow> Inr b | Inl e \<Rightarrow> if is_Exception e then Inr False else Inl e)"
  by (simp add: is_hindi_input_def split: sum.splits)

text \<open>
  Claim C4.  The decision of \<open>_should_respond_in_urdu\<close> is a function of the script
  classification of the inbound text alone: on a string it is \<open>True\<close> (reply in Arabic
  script) exactly when some code point is Devanagari and \<open>False\<close> (reply in Latin script)
  otherwise, the empty string included; it is the answer of \<open>_is_hindi_input\<close> on the
  same text; it leaves the state as it was; and it is the same in any two states, so that
  asking twice gives the same decision and nothing but the text influences it.
\<close>

theorem required_output_script:
  "should_respond_in_urdu (PStr s) st = (Inr (\<exists>c\<in>set s. c \<in> Devanagari_block), st) \<and>
   fst (should_respond_in_urdu v st) = fst (is_hindi_input v st') \<and>
   fst (should_respond_in_urdu v st) = fst (should_respond_in_urdu v st')"
  by (simp add: should_respond_in_urdu_def is_hindi_input_str is_hindi_input_fst)

theorem required_output_script_witness:
  "should_respond_in_urdu
     (PStr [0x0906, 0x092A, 0x20, 0x0915, 0x0948, 0x0938, 0x0947, 0x20, 0x0939, 0x0948, 0x0902, 0x3F])
     turn0 = (Inr True, turn0) \<and>
   should_respond_in_urdu (PStr (py_str ''Hello'')) turn0 = (Inr False, turn0) \<and>
   should_respond_in_urdu (PStr []) turn0 = (Inr False, turn0) \<and>
   fst (should_respond_in_urdu (PStr (py_str ''Hello'')) turn0) =
     fst (should_respond_in_urdu (PStr (py_str ''Hello'')) turn1)"
proof -
  have a: "should_respond_in_urdu
     (PStr [0x0906, 0x092A, 0x20, 0x0915, 0x0948, 0x0938, 0x0947, 0x20, 0x0939, 0x0948, 0x0902, 0x3F])
     turn0 = (Inr True, turn0)"
    using required_output_script
      [of "[0x0906, 0x092A, 0x20, 0x0915, 0x0948, 0x0938, 0x0947, 0x20, 0x0939, 0x0948, 0x0902, 0x3F]"
          turn0 PNone turn0]
    by (simp add: Devanagari_block_def)
  have b: "should_respond_in_urdu (PStr (py_str ''Hello'')) turn0 = (Inr False, turn0)"
    using required_output_script [of "py_str ''Hello''" turn0 PNone turn0]
    by (simp add: Devanagari_block_def py_str_def)
  have c: "should_respond_in_urdu (PStr []) turn0 = (Inr False, turn0)"
    using required_output_script [of "[]" turn0 PNone turn0] by simp
  have d: "fst (should_respond_in_urdu (PStr (py_str ''Hello'')) turn0) =
     fst (should_respond_in_urdu (PStr (py_str ''Hello'')) turn1)"
    using required_output_script [of "[]" turn0 "PStr (py_str ''Hello'')" turn1] by blast
  from a b c d show ?thesis by blast
qed

section \<open>The predicates never raise\<close>

lemma is_hindi_input_try_Exception: "is_hindi_input_try v = Inl e \<Longrightarrow> is_Exception e"
  by (cases v) (auto simp add: is_hindi_input_try_def split: if_splits)

lemma is_urdu_script_try_Exception: "is_urdu_script_try v = Inl e \<Longrightarrow> is_Exception e"
  by (cases v) (auto simp add: is_urdu_script_try_def split: if_splits)

text \<open>
  Claim C9.  \<open>_is_hindi_input\<close> and \<open>_is_urdu_script\<close> return a truth value on every
  argument and never raise; whenever the detection itself raises (an argument that is not
  a \<open>str\<close>), the exception is caught, a warning is logged and the answer is \<open>False\<close>.
\<close>

theorem classification_never_raises:
  "(\<exists>b st'. is_hindi_input v st = (Inr b, st')) \<and>
   (\<exists>b st'. is_urdu_script v st = (Inr b, st')) \<and>
   (is_hindi_input_try v = Inl e \<longrightarrow>
      is_hindi_input v st =
        (Inr False, st\<lparr>trace := trace st @ [Log WARNING [Lit ''Hindi detection error: '', Exc e]]\<rparr>)) \<and>
   (is_urdu_script_try v = Inl e \<longrightarrow>
      is_urdu_script v st =
        (Inr False, st\<lparr>trace := trace st @ [Log WARNING [Lit ''Urdu script detection error: '', Exc e]]\<rparr>))"
  using is_hindi_input_try_Exception [of v] is_urdu_script_try_Exception [of v]
  by (auto simp add: is_hindi_input_def is_urdu_script_def logger_def split: sum.splits)

theorem classification_never_raises_witness:
  "is_hindi_input_try (PInt 5) = Inl AttributeError \<and>
   is_hindi_input (PInt 5) turn0 =
     (Inr False, turn0\<lparr>trace := [Log WARNING [Lit ''Hindi detection error: '', Exc AttributeError]]\<rparr>) \<and>
   is_urdu_script_try (PBytes [65]) = Inl TypeError \<and>
   is_urdu_script (PBytes [65]) turn0 =
     (Inr False, turn0\<lparr>trace := [Log WARNING [Lit ''Urdu script detection error: '', Exc TypeError]]\<rparr>)"
proof -
  have h: "is_hindi_input_try (PInt 5) = Inl AttributeError"
    by (simp add: is_hindi_input_try_def)
  have u: "is_urdu_script_try (PBytes [65]) = Inl TypeError"
    by (simp add: is_urdu_script_try_def strip_def is_space_byte_def)
  from h u classification_never_raises [of "PInt 5" turn0 AttributeError]
    classification_never_raises [of "PBytes [65]" turn0 TypeError]
  show ?thesis by (simp add: turn0_def)
qed

section \<open>The assistant's fields are never written\<close>

lemma is_hindi_input_self: "self (snd (is_hindi_input v s)) = self s"
  by (simp add: is_hindi_input_def logger_def split: sum.splits)

lemma is_urdu_script_self: "self (snd (is_urdu_script v s)) = self s"
  by (simp add: is_urdu_script_def logger_def split: sum.splits)

lemma call_ext_self: "self (snd (call_ext ext c s)) = self s"
  by (simp add: call_ext_def split: prod.splits)

lemma say_try_self: "self (snd (say_try ext m ai ac s)) = self s"
  using is_hindi_input_self [of m s] is_urdu_script_self [of m "snd (is_hindi_input m s)"]
  by (auto simp add: say_try_def call_ext_def logger_def split: prod.splits sum.splits)

lemma say_self: "self (snd (say ext m ai ac s)) = self s"
  using say_try_self [of ext m ai ac s]
  by (auto simp add: say_def call_ext_def logger_def split: prod.splits sum.splits)

lemma step_self: "self (step ext operation s) = self s"
  by (cases operation) (simp_all add: is_hindi_input_self is_urdu_script_self say_self should_respond_in_urdu_def)

lemma run_self: "self (run ext ops s) = self s"
  unfolding run_def by (induction ops arbitrary: s) (simp_all add: step_self)

text \<open>
  Claim C10.  After any sequence of calls to \<open>_is_hindi_input\<close>, \<open>_is_urdu_script\<close>,
  \<open>_should_respond_in_urdu\<close> and \<open>say\<close>, the assistant is the object its constructor
  built: \<open>user_language_preference\<close> is \<open>"english"\<close>, \<open>conversation_history\<close> is empty
  and the instruction text is the one passed to the base class.
\<close>

theorem per_turn_operations_frame:
  assumes "Assistant_init ext0 s0 = (Inr a, s1)" and "self st = a"
  shows "self (run ext ops st) = a \<and>
         instructions (self (run ext ops st)) = INSTRUCTIONS \<and>
         user_language_preference (self (run ext ops st)) = py_str ''english'' \<and>
         conversation_history (self (run ext ops st)) = []"
proof -
  from assms(1) have "a = \<lparr>instructions = INSTRUCTIONS, user_language_preference = py_str ''english'',
                           conversation_history = []\<rparr>"
    by (auto simp add: Assistant_init_def split: prod.splits sum.splits)
  with assms(2) show ?thesis by (simp add: run_self)
qed

theorem per_turn_operations_frame_witness:
  "Assistant_init env_ok \<lparr>trace = [], world = ()\<rparr> =
     (Inr assistant0, \<lparr>trace = [Call (Agent_init INSTRUCTIONS) (Inr 0)], world = ()\<rparr>) \<and>
   self turn0 = assistant0 \<and>
   user_language_preference
     (self (run env_ok
        [Op_say (PStr (py_str ''Hello'')) True True, Op_is_hindi_input (PInt 5),
         Op_should_respond_in_urdu PNone, Op_is_urdu_script (PStr [0x0622])] turn0)) =
     py_str ''english'' \<and>
   conversation_history
     (self (run env_ok
        [Op_say (PStr (py_str ''Hello'')) True True, Op_is_hindi_input (PInt 5),
         Op_should_respond_in_urdu PNone, Op_is_urdu_script (PStr [0x0622])] turn0)) = []"
proof -
  have a: "Assistant_init env_ok \<lparr>trace = [], world = ()\<rparr> =
     (Inr assistant0, \<lparr>trace = [Call (Agent_init INSTRUCTIONS) (Inr 0)], world = ()\<rparr>)"
    by (simp add: Assistant_init_def call_ext_def env_ok_def assistant0_def)
  have b: "self turn0 = assistant0" by (simp add: turn0_def)
  from a b per_turn_operations_frame [OF a b, of env_ok]
  show ?thesis by (simp add: assistant0_def)
qed

section \<open>The wrapped speak operation\<close>

text \<open>
  Before the inherited \<open>say\<close> is called, only records below \<open>ERROR\<close> are logged; then
  either the slice \<open>message[:100]\<close> raises or the call is made, once.
\<close>

lemma is_hindi_input_shape:
  "\<exists>b pre. (\<forall>ev\<in>set pre. \<not> is_Call ev \<and> \<not> is_error_record ev) \<and>
     is_hindi_input v s = (Inr b, s\<lparr>trace := trace s @ pre\<rparr>)"
proof (cases "is_hindi_input_try v")
  case (Inl e)
  then have "is_Exception e" by (rule is_hindi_input_try_Exception)
  with Inl have "is_hindi_input v s =
      (Inr False, s\<lparr>trace := trace s @ [Log WARNING [Lit ''Hindi detection error: '', Exc e]]\<rparr>)"
    by (simp add: is_hindi_input_def logger_def)
  moreover have "\<forall>ev\<in>set [Log WARNING [Lit ''Hindi detection error: '', Exc e]].
      \<not> is_Call ev \<and> \<not> is_error_record ev" by simp
  ultimately show ?thesis by blast
next
  case (Inr b)
  then have "is_hindi_input v s = (Inr b, s\<lparr>trace := trace s @ []\<rparr>)"
    by (simp add: is_hindi_input_def)
  moreover have "\<forall>ev\<in>set []. \<not> is_Call ev \<and> \<not> is_error_record ev" by simp
  ultimately show ?thesis by blast
qed

lemma is_urdu_script_shape:
  "\<exists>b pre. (\<forall>ev\<in>set pre. \<not> is_Call ev \<and> \<not> is_error_record ev) \<and>
     is_urdu_script v s = (Inr b, s\<lparr>trace := trace s @ pre\<rparr>)"
proof (cases "is_urdu_script_try v")
  case (Inl e)
  then have "is_Exception e" by (rule is_urdu_script_try_Exception)
  with Inl have "is_urdu_script v s =
      (Inr False, s\<lparr>trace := trace s @ [Log WARNING [Lit ''Urdu script detection error: '', Exc e]]\<rparr>)"
    by (simp add: is_urdu_script_def logger_def)
  moreover have "\<forall>ev\<in>set [Log WARNING [Lit ''Urdu script detection error: '', Exc e]].
      \<not> is_Call ev \<and> \<not> is_error_record ev" by simp
  ultimately show ?thesis by blast
next
  case (Inr b)
  then have "is_urdu_script v s = (Inr b, s\<lparr>trace := trace s @ []\<rparr>)"
    by (simp add: is_urdu_script_def)
  moreover have "\<forall>ev\<in>set []. \<not> is_Call ev \<and> \<not> is_error_record ev" by simp
  ultimately show ?thesis by blast
qed

lemma say_try_shape:
  fixes ext :: "('w, 'h) environment"
  shows "\<exists>pre. (\<forall>ev\<in>set pre. \<not> is_Call ev \<and> \<not> is_error_record ev) \<and>
     say_try ext message ai ac s =
       (case py_slice_100 message of
          Inl e \<Rightarrow> (Inl e, s\<lparr>trace := trace s @ pre\<rparr>)
        | Inr m \<Rightarrow>
            (fst (ext (Super_say message ai ac) (world s)),
             s\<lparr>trace := trace s @ pre @
                  [Call (Super_say message ai ac) (fst (ext (Super_say message ai ac) (world s)))],
               world := snd (ext (Super_say message ai ac) (world s))\<rparr>))"
proof -
  obtain b1 pre1 where 1: "\<forall>ev\<in>set pre1. \<not> is_Call ev \<and> \<not> is_error_record ev"
    "is_hindi_input message s = (Inr b1, s\<lparr>trace := trace s @ pre1\<rparr>)"
    using is_hindi_input_shape [of message s] by blast
  obtain b2 pre2 where 2: "\<forall>ev\<in>set pre2. \<not> is_Call ev \<and> \<not> is_error_record ev"
    "is_urdu_script message (s\<lparr>trace := trace s @ pre1\<rparr>) =
       (Inr b2, s\<lparr>trace := trace s @ pre1 @ pre2\<rparr>)"
    using is_urdu_script_shape [of message "s\<lparr>trace := trace s @ pre1\<rparr>"] by auto
  show ?thesis
  proof (cases "py_slice_100 message")
    case (Inl e)
    with 1 2 have "say_try ext message ai ac s = (Inl e, s\<lparr>trace := trace s @ (pre1 @ pre2)\<rparr>)"
      by (simp add: say_try_def)
    moreover from 1 2 have "\<forall>ev\<in>set (pre1 @ pre2). \<not> is_Call ev \<and> \<not> is_error_record ev" by auto
    ultimately show ?thesis using Inl by (intro exI [of _ "pre1 @ pre2"]) simp
  next
    case (Inr m)
    define info :: "'h event" where "info = Log INFO [Lit ''Assistant responding in '',
        Lit (if b2 then ''Urdu'' else if b1 then ''English (from Hindi input)'' else ''English''),
        Lit '': '', Val m, Lit ''...'']"
    define c :: "'h call" where "c = Super_say message ai ac"
    from 1 2 Inr have "say_try ext message ai ac s =
        (fst (ext c (world s)),
         s\<lparr>trace := trace s @ (pre1 @ pre2 @ [info]) @ [Call c (fst (ext c (world s)))],
           world := snd (ext c (world s))\<rparr>)"
      by (simp add: say_try_def call_ext_def logger_def info_def c_def split: prod.splits)
    moreover from 1 2 have "\<forall>ev\<in>set (pre1 @ pre2 @ [info]). \<not> is_Call ev \<and> \<not> is_error_record ev"
      by (auto simp add: info_def)
    ultimately show ?thesis using Inr unfolding c_def
      by (intro exI [of _ "pre1 @ pre2 @ [info]"]) simp
  qed
qed

lemma py_slice_100_Exception: "py_slice_100 v = Inl e \<Longrightarrow> is_Exception e"
  by (cases v) auto

text \<open>Three runs of \<open>say\<close> on \<open>"Hello"\<close>.\<close>

lemma say_env_cancelled:
  "say env_cancelled (PStr (py_str ''Hello'')) True True turn0 =
     (Inl CancelledError,
      turn0\<lparr>trace :=
        [Log INFO [Lit ''Assistant responding in '', Lit ''English'', Lit '': '',
                   Val (PStr (py_str ''Hello'')), Lit ''...''],
         Call (Super_say (PStr (py_str ''Hello'')) True True) (Inl CancelledError)]\<rparr>)"
  by (simp add: say_def say_try_def is_hindi_input_str is_urdu_script_str call_ext_def logger_def
        env_cancelled_def turn0_def py_str_def Devanagari_block_def Arabic_blocks_def)

lemma say_env_interrupted:
  "say env_interrupted (PStr (py_str ''Hello'')) True True turn0 =
     (Inl KeyboardInterrupt,
      turn0\<lparr>trace :=
        [Log INFO [Lit ''Assistant responding in '', Lit ''English'', Lit '': '',
                   Val (PStr (py_str ''Hello'')), Lit ''...''],
         Call (Super_say (PStr (py_str ''Hello'')) True True) (Inl KeyboardInterrupt)]\<rparr>)"
  by (simp add: say_def say_try_def is_hindi_input_str is_urdu_script_str call_ext_def logger_def
        env_interrupted_def turn0_def py_str_def Devanagari_block_def Arabic_blocks_def)

lemma say_env_fail_once:
  "say env_fail_once (PStr (py_str ''Hello'')) True False turn1 =
     (Inr (Some 7),
      turn1\<lparr>trace :=
        [Log INFO [Lit ''Assistant responding in '', Lit ''English'', Lit '': '',
                   Val (PStr (py_str ''Hello'')), Lit ''...''],
         Call (Super_say (PStr (py_str ''Hello'')) True False) (Inl RuntimeError),
         Log ERROR [Lit ''Error in say method: '', Exc RuntimeError],
         Call (Super_say (PStr fallback_msg) True False) (Inr 7)],
        world := 2\<rparr>)"
  by (simp add: say_def say_try_def is_hindi_input_str is_urdu_script_str call_ext_def logger_def
        env_fail_once_def turn1_def py_str_def Devanagari_block_def Arabic_blocks_def)

text \<open>
  Claim C8, as stated, fails: when the inherited \<open>say\<close> is left by an exception that is
  not an \<open>Exception\<close> (here \<open>KeyboardInterrupt\<close>), the handler \<open>except Exception\<close> does
  not run and no recovery is attempted: the failed call is the only call made.
\<close>

theorem say_no_recovery_counterexample:
  "filter is_Call (trace (snd (say env_interrupted (PStr (py_str ''Hello'')) True True turn0))) =
     [Call (Super_say (PStr (py_str ''Hello'')) True True) (Inl KeyboardInterrupt)]"
  by (simp add: say_env_interrupted)

text \<open>
  Claim C8, amended.  For every message that reaches the inherited \<open>say\<close> (a \<open>str\<close> or
  \<open>bytes\<close> object) and on which that call fails with an \<open>Exception\<close>, the failure is
  logged and exactly one recovery follows: the fixed phrase
  \<open>"I'm having trouble responding. Please try again."\<close> is spoken with the same
  \<open>allow_interruptions\<close> and \<open>add_to_chat_ctx\<close>; when the recovery succeeds the caller
  receives its acknowledgement, when it fails the caller receives \<open>None\<close>, and in both
  cases no exception surfaces.
\<close>

theorem say_recovers_once:
  fixes ext :: "('w, 'h) environment"
  assumes slice: "py_slice_100 message = Inr m"
    and first: "ext (Super_say message ai ac) (world s) = (Inl e, w1)"
    and exc: "is_Exception e"
    and second: "ext (Super_say (PStr fallback_msg) ai ac) w1 = (r2, w2)"
  shows "(\<exists>pre. (\<forall>ev\<in>set pre. \<not> is_Call ev \<and> \<not> is_error_record ev) \<and>
            say ext message ai ac s =
              ((case r2 of Inr ack \<Rightarrow> Inr (Some ack) | Inl e2 \<Rightarrow> Inr None),
               s\<lparr>trace := trace s @ pre @
                    [Call (Super_say message ai ac) (Inl e),
                     Log ERROR [Lit ''Error in say method: '', Exc e],
                     Call (Super_say (PStr fallback_msg) ai ac) r2],
                 world := w2\<rparr>)) \<and>
         fallback_msg = py_str ''I'm having trouble responding. Please try again.''"
proof -
  obtain pre where pre: "\<forall>ev\<in>set pre. \<not> is_Call ev \<and> \<not> is_error_record ev"
    and body: "say_try ext message ai ac s =
      (Inl e, s\<lparr>trace := trace s @ pre @ [Call (Super_say message ai ac) (Inl e)], world := w1\<rparr>)"
    using say_try_shape [of ext message ai ac s] slice first by auto
  from body exc second have "say ext message ai ac s =
      ((case r2 of Inr ack \<Rightarrow> Inr (Some ack) | Inl e2 \<Rightarrow> Inr None),
       s\<lparr>trace := trace s @ pre @
            [Call (Super_say message ai ac) (Inl e),
             Log ERROR [Lit ''Error in say method: '', Exc e],
             Call (Super_say (PStr fallback_msg) ai ac) r2],
         world := w2\<rparr>)"
    by (simp add: say_def call_ext_def logger_def split: sum.splits)
  with pre show ?thesis by (auto simp add: fallback_msg_def)
qed

theorem say_recovers_once_witness:
  "py_slice_100 (PStr (py_str ''Hello'')) = Inr (PStr (py_str ''Hello'')) \<and>
   env_fail_once (Super_say (PStr (py_str ''Hello'')) True False) (world turn1) = (Inl RuntimeError, 1) \<and>
   is_Exception RuntimeError \<and>
   env_fail_once (Super_say (PStr fallback_msg) True False) 1 = (Inr 7, 2) \<and>
   fst (say env_fail_once (PStr (py_str ''Hello'')) True False turn1) = Inr (Some 7) \<and>
   world (snd (say env_fail_once (PStr (py_str ''Hello'')) True False turn1)) = 2"
proof -
  have a: "py_slice_100 (PStr (py_str ''Hello'')) = Inr (PStr (py_str ''Hello''))"
    by (simp add: py_str_def)
  have b: "env_fail_once (Super_say (PStr (py_str ''Hello'')) True False) (world turn1) =
             (Inl RuntimeError, 1)"
    by (simp add: env_fail_once_def turn1_def)
  have c: "is_Exception RuntimeError" by simp
  have d: "env_fail_once (Super_say (PStr fallback_msg) True False) 1 = (Inr 7, 2)"
    by (simp add: env_fail_once_def)
  from say_recovers_once [OF a b c d] a b c d show ?thesis by auto
qed

text \<open>
  Claim C1, as stated, fails: when the task is cancelled while the inherited \<open>say\<close> is
  awaited, \<open>CancelledError\<close> is not an \<open>Exception\<close>, the handler \<open>except Exception\<close>
  does not catch it, and \<open>say\<close> raises it to its caller.
\<close>

theorem say_propagates_counterexample:
  "fst (say env_cancelled (PStr (py_str ''Hello'')) True True turn0) = Inl CancelledError"
  by (simp add: say_env_cancelled)

text \<open>
  Claim C1, amended.  For every message and every behaviour of the inherited \<open>say\<close>,
  the only exception \<open>say\<close> lets through is one that is not an \<open>Exception\<close> and that
  the call on the original message raised; so when that call fails with an \<open>Exception\<close>
  or not at all, \<open>say\<close> returns, whatever the recovery call does.  A run makes at most
  two calls (the original one and one recovery) and logs at most one error.
\<close>

theorem say_raises_only_uncaught:
  fixes ext :: "('w, 'h) environment"
  assumes run: "say ext message ai ac s = (r, s')"
  shows "(\<forall>e. r = Inl e \<longrightarrow>
            \<not> is_Exception e \<and>
            ext (Super_say message ai ac) (world s) = (Inl e, world s') \<and>
            last (trace s') = Call (Super_say message ai ac) (Inl e)) \<and>
         ((\<forall>e. fst (ext (Super_say message ai ac) (world s)) = Inl e \<longrightarrow> is_Exception e) \<longrightarrow>
            (\<exists>ack. r = Inr ack)) \<and>
         length (filter is_Call (new_events s s')) \<le> 2 \<and>
         length (filter is_error_record (new_events s s')) \<le> 1"
proof -
  define c :: "'h call" where "c = Super_say message ai ac"
  define fb :: "'h call" where "fb = Super_say (PStr fallback_msg) ai ac"
  obtain pre where pre: "\<forall>ev\<in>set pre. \<not> is_Call ev \<and> \<not> is_error_record ev"
    and body: "say_try ext message ai ac s =
       (case py_slice_100 message of
          Inl e \<Rightarrow> (Inl e, s\<lparr>trace := trace s @ pre\<rparr>)
        | Inr m \<Rightarrow>
            (fst (ext c (world s)),
             s\<lparr>trace := trace s @ pre @ [Call c (fst (ext c (world s)))],
               world := snd (ext c (world s))\<rparr>))"
    using say_try_shape [of ext message ai ac s] unfolding c_def by blast
  from pre have nocall: "filter is_Call pre = []" and noerr: "filter is_error_record pre = []"
    by (simp_all add: filter_empty_conv)
  show ?thesis
  proof (cases "py_slice_100 message")
    case (Inl e)
    then have e: "is_Exception e" by (rule py_slice_100_Exception)
    obtain r2 w2 where fb: "ext fb (world s) = (r2, w2)" by (cases "ext fb (world s)")
    from Inl body e fb have "say ext message ai ac s =
        ((case r2 of Inr ack \<Rightarrow> Inr (Some ack) | Inl e2 \<Rightarrow> Inr None),
         s\<lparr>trace := trace s @ pre @ [Log ERROR [Lit ''Error in say method: '', Exc e], Call fb r2],
           world := w2\<rparr>)"
      by (simp add: say_def call_ext_def logger_def fb_def split: sum.splits)
    with run have "r = (case r2 of Inr ack \<Rightarrow> Inr (Some ack) | Inl e2 \<Rightarrow> Inr None)"
      and "trace s' = trace s @ pre @ [Log ERROR [Lit ''Error in say method: '', Exc e], Call fb r2]"
      by auto
    with nocall noerr show ?thesis
      by (auto simp add: new_events_def split: sum.splits)
  next
    case (Inr m)
    obtain r1 w1 where c: "ext c (world s) = (r1, w1)" by (cases "ext c (world s)")
    with Inr body have body': "say_try ext message ai ac s =
        (r1, s\<lparr>trace := trace s @ pre @ [Call c r1], world := w1\<rparr>)" by simp
    show ?thesis
    proof (cases r1)
      case ack: (Inr a)
      with body' have "say ext message ai ac s =
          (Inr (Some a), s\<lparr>trace := trace s @ pre @ [Call c r1], world := w1\<rparr>)"
        by (simp add: say_def)
      with run have "r = Inr (Some a)" and "trace s' = trace s @ pre @ [Call c r1]" by auto
      with nocall noerr show ?thesis by (simp add: new_events_def)
    next
      case fail: (Inl e)
      show ?thesis
      proof (cases "is_Exception e")
        case True
        obtain r2 w2 where fb: "ext fb w1 = (r2, w2)" by (cases "ext fb w1")
        from body' fail True fb have "say ext message ai ac s =
            ((case r2 of Inr ack \<Rightarrow> Inr (Some ack) | Inl e2 \<Rightarrow> Inr None),
             s\<lparr>trace := trace s @ pre @
                  [Call c r1, Log ERROR [Lit ''Error in say method: '', Exc e], Call fb r2],
               world := w2\<rparr>)"
          by (simp add: say_def call_ext_def logger_def fb_def split: sum.splits)
        with run have "r = (case r2 of Inr ack \<Rightarrow> Inr (Some ack) | Inl e2 \<Rightarrow> Inr None)"
          and "trace s' = trace s @ pre @
                  [Call c r1, Log ERROR [Lit ''Error in say method: '', Exc e], Call fb r2]"
          by auto
        with nocall noerr show ?thesis
          by (auto simp add: new_events_def split: sum.splits)
      next
        case False
        with body' fail have "say ext message ai ac s =
            (Inl e, s\<lparr>trace := trace s @ pre @ [Call c r1], world := w1\<rparr>)"
          by (simp add: say_def)
        with run have "r = Inl e" and "trace s' = trace s @ pre @ [Call c r1]"
          and "world s' = w1" by auto
        with nocall noerr False fail c show ?thesis
          by (simp add: new_events_def c_def)
      qed
    qed
  qed
qed

theorem say_raises_only_uncaught_witness:
  "fst (say env_interrupted (PStr (py_str ''Hello'')) True True turn0) = Inl KeyboardInterrupt \<and>
   \<not> is_Exception KeyboardInterrupt \<and>
   env_interrupted (Super_say (PStr (py_str ''Hello'')) True True) (world turn0) =
     (Inl KeyboardInterrupt, world (snd (say env_interrupted (PStr (py_str ''Hello'')) True True turn0))) \<and>
   fst (say env_fail_once (PStr (py_str ''Hello'')) True False turn1) = Inr (Some 7) \<and>
   length (filter is_Call
     (new_events turn1 (snd (say env_fail_once (PStr (py_str ''Hello'')) True False turn1)))) \<le> 2"
proof -
  have a: "say env_interrupted (PStr (py_str ''Hello'')) True True turn0 =
      (fst (say env_interrupted (PStr (py_str ''Hello'')) True True turn0),
       snd (say env_interrupted (PStr (py_str ''Hello'')) True True turn0))" by simp
  have b: "say env_fail_once (PStr (py_str ''Hello'')) True False turn1 =
      (fst (say env_fail_once (PStr (py_str ''Hello'')) True False turn1),
       snd (say env_fail_once (PStr (py_str ''Hello'')) True False turn1))" by simp
  have c: "fst (say env_interrupted (PStr (py_str ''Hello'')) True True turn0) = Inl KeyboardInterrupt"
    by (simp add: say_env_interrupted)
  have d: "fst (say env_fail_once (PStr (py_str ''Hello'')) True False turn1) = Inr (Some 7)"
    by (simp add: say_env_fail_once)
  from say_raises_only_uncaught [OF a] say_raises_only_uncaught [OF b] c d
  show ?thesis by simp
qed

section \<open>The bootstrap\<close>

subsection \<open>The four slots\<close>

lemma attempts_append: "attempts sl (xs @ ys) = attempts sl xs @ attempts sl ys"
  by (induction sl xs rule: attempts.induct) simp_all

lemma init_stt_block:
  fixes ext :: "('w, 'h) environment"
  assumes "init_stt ext groq_key s = (fl, s')"
  shows "\<exists>evs. trace s' = trace s @ evs \<and> slot_block STT fl evs"
  using assms
  by (auto simp add: init_stt_def call_ext_def logger_def slot_block_def failed_def
           split: prod.splits sum.splits if_splits)

lemma init_llm_block:
  fixes ext :: "('w, 'h) environment"
  assumes "init_llm ext s = (fl, s')"
  shows "\<exists>evs. trace s' = trace s @ evs \<and> slot_block LLM fl evs"
  using assms
  by (auto simp add: init_llm_def call_ext_def logger_def slot_block_def failed_def
           split: prod.splits sum.splits if_splits)

lemma init_tts_block:
  fixes ext :: "('w, 'h) environment"
  assumes "init_tts ext azure_key azure_region s = (fl, s')"
  shows "\<exists>evs. trace s' = trace s @ evs \<and> slot_block TTS fl evs"
  using assms
  by (auto simp add: init_tts_def call_ext_def logger_def slot_block_def failed_def
           split: prod.splits sum.splits if_splits)

lemma init_vad_block:
  fixes ext :: "('w, 'h) environment"
  assumes "init_vad ext s = (fl, s')"
  shows "\<exists>evs. trace s' = trace s @ evs \<and> slot_block VAD fl evs"
  using assms
  by (auto simp add: init_vad_def call_ext_def logger_def slot_block_def failed_def
           split: prod.splits sum.splits if_splits)

subsection \<open>The session and the greeting\<close>

lemma greeting_block:
  fixes ext :: "('w, 'h) environment"
  assumes "greeting ext session s = (r, s')"
  shows "\<exists>evs. trace s' = trace s @ evs \<and> (\<forall>sl. attempts sl evs = []) \<and>
           (\<forall>a b c d res. Call (AgentSession a b c d) res \<notin> set evs) \<and>
           (\<forall>aw t res. Call (Wait_for aw t) res \<in> set evs \<longrightarrow> t = 30) \<and>
           (\<forall>aw t. Call (Wait_for aw t) (Inl Asyncio_TimeoutError) \<in> set evs \<longrightarrow>
              r = Inr () \<and>
              last evs = Log WARNING [Lit ''Initial greeting generation timed out'']) \<and>
           length (filter is_Generate_reply evs) = 1 \<and>
           (\<forall>sess rm ag op rr. Call (Session_start sess rm ag op) rr \<notin> set evs) \<and>
           ((\<exists>e. filter is_greeting_event evs =
                  [Call (Generate_reply session greeting_instructions) (Inl e)]) \<or>
            (\<exists>reply res. filter is_greeting_event evs =
                  [Call (Generate_reply session greeting_instructions) (Inr reply),
                   Call (Wait_for reply 30) res]))"
  using assms
  by (auto simp add: greeting_def greeting_except_def call_ext_def logger_def
           split: prod.splits sum.splits if_splits)

lemma start_session_block:
  fixes ext :: "('w, 'h) environment"
  assumes "start_session ext room agent stt llm tts vad s = (r, s')"
  shows "\<exists>post. trace s' = trace s @ post \<and> session_block stt llm tts vad r post"
proof -
  show ?thesis
  proof (cases "call_ext ext (AgentSession stt llm tts vad) s")
    case (Pair r1 s1)
    then have t1: "trace s1 = trace s @ [Call (AgentSession stt llm tts vad) r1]"
      by (auto simp add: call_ext_def split: prod.splits)
    show ?thesis
    proof (cases r1)
      case (Inl e)
      with Pair assms have "r = Inl e" "s' = s1" by (simp_all add: start_session_def)
      with t1 show ?thesis by (auto simp add: session_block_def greeting_bounded_def greeting_requested_def)
    next
      case (Inr session)
      define s1' where "s1' = logger INFO [Lit ''Session created, starting...''] s1"
      obtain r2 s2 where 2: "call_ext ext BVC s1' = (r2, s2)" by (cases "call_ext ext BVC s1'")
      then have t2: "trace s2 = trace s @ [Call (AgentSession stt llm tts vad) r1,
          Log INFO [Lit ''Session created, starting...''], Call BVC r2]"
        using t1 by (auto simp add: call_ext_def logger_def s1'_def split: prod.splits)
      show ?thesis
      proof (cases r2)
        case (Inl e)
        with Pair Inr 2 assms have "r = Inl e" "s' = s2" by (simp_all add: start_session_def s1'_def)
        with t2 show ?thesis by (auto simp add: session_block_def greeting_bounded_def greeting_requested_def)
      next
        case bvc: (Inr bvc)
        obtain r3 s3 where 3: "call_ext ext (RoomInputOptions bvc) s2 = (r3, s3)"
          by (cases "call_ext ext (RoomInputOptions bvc) s2")
        then have t3: "trace s3 = trace s @ [Call (AgentSession stt llm tts vad) r1,
            Log INFO [Lit ''Session created, starting...''], Call BVC r2, Call (RoomInputOptions bvc) r3]"
          using t2 by (auto simp add: call_ext_def split: prod.splits)
        show ?thesis
        proof (cases r3)
          case (Inl e)
          with Pair Inr 2 bvc 3 assms have "r = Inl e" "s' = s3"
            by (simp_all add: start_session_def s1'_def)
          with t3 show ?thesis by (auto simp add: session_block_def greeting_bounded_def greeting_requested_def)
        next
          case opts: (Inr opts)
          obtain r4 s4 where 4: "call_ext ext (Session_start session room agent opts) s3 = (r4, s4)"
            by (cases "call_ext ext (Session_start session room agent opts) s3")
          then have t4: "trace s4 = trace s @ [Call (AgentSession stt llm tts vad) r1,
              Log INFO [Lit ''Session created, starting...''], Call BVC r2,
              Call (RoomInputOptions bvc) r3, Call (Session_start session room agent opts) r4]"
            using t3 by (auto simp add: call_ext_def split: prod.splits)
          show ?thesis
          proof (cases r4)
            case (Inl e)
            with Pair Inr 2 bvc 3 opts 4 assms have "r = Inl e" "s' = s4"
              by (simp_all add: start_session_def s1'_def)
            with t4 Inl show ?thesis
              by (auto simp add: session_block_def greeting_bounded_def greeting_requested_def)
          next
            case started: (Inr u)
            define s4' where "s4' = logger INFO [Lit ''Session started successfully - Hindi input '',
                Uni [0x2192], Lit '' Urdu script output pipeline''] s4"
            from Pair Inr 2 bvc 3 opts 4 started assms have g: "greeting ext session s4' = (r, s')"
              by (simp add: start_session_def s1'_def s4'_def)
            from greeting_block [OF g] obtain evs where evs: "trace s' = trace s4' @ evs"
              "\<forall>sl. attempts sl evs = []"
              "\<forall>a b c d res. Call (AgentSession a b c d) res \<notin> set evs"
              "\<forall>aw t res. Call (Wait_for aw t) res \<in> set evs \<longrightarrow> t = 30"
              "\<forall>aw t. Call (Wait_for aw t) (Inl Asyncio_TimeoutError) \<in> set evs \<longrightarrow>
                 r = Inr () \<and>
                 last evs = Log WARNING [Lit ''Initial greeting generation timed out'']"
              "length (filter is_Generate_reply evs) = 1"
              "\<forall>sess rm ag op rr. Call (Session_start sess rm ag op) rr \<notin> set evs"
              "(\<exists>e. filter is_greeting_event evs =
                  [Call (Generate_reply session greeting_instructions) (Inl e)]) \<or>
               (\<exists>reply res. filter is_greeting_event evs =
                  [Call (Generate_reply session greeting_instructions) (Inr reply),
                   Call (Wait_for reply 30) res])"
              by blast
            from evs(6) have ne: "evs \<noteq> []" by auto
            define pre where "pre = [Call (AgentSession stt llm tts vad) r1,
              Log INFO [Lit ''Session created, starting...''], Call BVC r2,
              Call (RoomInputOptions bvc) r3, Call (Session_start session room agent opts) r4,
              Log INFO [Lit ''Session started successfully - Hindi input '',
                Uni [0x2192], Lit '' Urdu script output pipeline'']]"
            from evs(1) t4 have tr: "trace s' = trace s @ (pre @ evs)"
              by (simp add: s4'_def logger_def pre_def)
            have p1: "\<forall>sl. attempts sl pre = []" by (simp add: pre_def)
            have p2: "filter is_Generate_reply pre = []" by (simp add: pre_def)
            have p3: "\<forall>aw t res. Call (Wait_for aw t) res \<notin> set pre" by (simp add: pre_def)
            have p4: "\<forall>a b c d res. Call (AgentSession a b c d) res \<in> set pre \<longrightarrow>
                a = stt \<and> b = llm \<and> c = tts \<and> d = vad" by (simp add: pre_def)
            have p5: "filter is_greeting_event pre = []" by (simp add: pre_def)
            have p6: "Call (AgentSession stt llm tts vad) (Inr session) \<in> set (pre @ evs)"
              using Inr by (simp add: pre_def)
            have p7: "\<forall>sess rm ag op u. Call (Session_start sess rm ag op) u \<in> set pre \<longrightarrow>
                sess = session" by (simp add: pre_def)
            from evs(8) have gexists:
              "\<exists>rr. Call (Generate_reply session greeting_instructions) rr \<in> set evs"
            proof
              assume "\<exists>e. filter is_greeting_event evs =
                  [Call (Generate_reply session greeting_instructions) (Inl e)]"
              then obtain e where h: "filter is_greeting_event evs =
                  [Call (Generate_reply session greeting_instructions) (Inl e)]" by blast
              have "Call (Generate_reply session greeting_instructions) (Inl e)
                  \<in> set (filter is_greeting_event evs)" unfolding h by simp
              then have "Call (Generate_reply session greeting_instructions) (Inl e) \<in> set evs"
                by simp
              then show ?thesis by blast
            next
              assume "\<exists>reply res. filter is_greeting_event evs =
                  [Call (Generate_reply session greeting_instructions) (Inr reply),
                   Call (Wait_for reply 30) res]"
              then obtain reply res where h: "filter is_greeting_event evs =
                  [Call (Generate_reply session greeting_instructions) (Inr reply),
                   Call (Wait_for reply 30) res]" by blast
              have "Call (Generate_reply session greeting_instructions) (Inr reply)
                  \<in> set (filter is_greeting_event evs)" unfolding h by simp
              then have "Call (Generate_reply session greeting_instructions) (Inr reply) \<in> set evs"
                by simp
              then show ?thesis by blast
            qed
            have gb: "greeting_bounded (pre @ evs)"
              unfolding greeting_bounded_def using p5 p6 evs(8) by auto
            have gr: "greeting_requested (pre @ evs)"
              unfolding greeting_requested_def
            proof (intro allI impI)
              fix sess rm ag op u'
              assume "Call (Session_start sess rm ag op) (Inr u') \<in> set (pre @ evs)"
              with evs(7) have "Call (Session_start sess rm ag op) (Inr u') \<in> set pre" by auto
              with p7 have "sess = session" by blast
              with gexists
              show "\<exists>rr. Call (Generate_reply sess greeting_instructions) rr \<in> set (pre @ evs)"
                by auto
            qed
            have "session_block stt llm tts vad r (pre @ evs)"
              unfolding session_block_def
              using p1 p2 p3 p4 evs(2-6) ne gb gr by (auto simp add: attempts_append)
            with tr show ?thesis by blast
          qed
        qed
      qed
    qed
  qed
qed

subsection \<open>Putting the stages together\<close>

lemma boot_inv_quiet:
  assumes "\<forall>ev\<in>set T. \<not> is_runtime_event ev" and "\<forall>sl. attempts sl T = []"
  shows "boot_inv {} H T"
  using assms by (simp add: boot_inv_def)

lemma boot_inv_bind:
  assumes "boot_inv B H T" and "sl \<notin> B" and "slot_block sl (Value h) evs"
  shows "boot_inv (insert sl B) (H(sl := h)) (T @ evs)"
  unfolding boot_inv_def
proof (intro conjI allI)
  show "\<forall>ev\<in>set (T @ evs). \<not> is_runtime_event ev"
    using assms by (auto simp add: boot_inv_def slot_block_def)
next
  fix sl'
  show "if sl' \<in> insert sl B
        then attempts sl' (T @ evs) \<noteq> [] \<and>
             snd (last (attempts sl' (T @ evs))) = Inr ((H(sl := h)) sl') \<and>
             (\<forall>x\<in>set (butlast (attempts sl' (T @ evs))). failed x)
        else attempts sl' (T @ evs) = []"
  proof (cases "sl' = sl")
    case True
    with assms have "attempts sl' T = []" by (auto simp add: boot_inv_def split: if_splits)
    with True assms(3) show ?thesis by (simp add: attempts_append slot_block_def)
  next
    case False
    with assms(3) have "attempts sl' evs = []" by (simp add: slot_block_def)
    with False assms(1) show ?thesis by (simp add: attempts_append boot_inv_def)
  qed
qed

lemma is_greeting_runtime: "is_greeting_event ev \<Longrightarrow> is_runtime_event ev"
  by (cases ev rule: is_greeting_event.cases) simp_all

lemma quiet_greeting:
  assumes q: "\<forall>ev\<in>set T. \<not> is_runtime_event ev"
  shows "filter is_greeting_event T = []" and "greeting_bounded T" and "greeting_requested T"
proof -
  from q show f: "filter is_greeting_event T = []"
    using is_greeting_runtime by (auto simp add: filter_empty_conv)
  then show "greeting_bounded T" by (simp add: greeting_bounded_def)
  from q have "\<forall>sess rm agent opts u. Call (Session_start sess rm agent opts) u \<notin> set T"
    by fastforce
  then show "greeting_requested T" by (simp add: greeting_requested_def)
qed

lemma greeting_after_quiet:
  assumes q: "\<forall>ev\<in>set T. \<not> is_runtime_event ev"
    and gb: "greeting_bounded post" and gr: "greeting_requested post"
  shows "greeting_bounded (T @ post)" and "greeting_requested (T @ post)"
proof -
  from quiet_greeting(1) [OF q] have f: "filter is_greeting_event (T @ post) = filter is_greeting_event post"
    by simp
  from gb show "greeting_bounded (T @ post)"
    unfolding greeting_bounded_def f by auto
  from q have no: "\<forall>sess rm agent opts u. Call (Session_start sess rm agent opts) u \<notin> set T"
    by fastforce
  show "greeting_requested (T @ post)"
    unfolding greeting_requested_def
  proof (intro allI impI)
    fix sess rm agent opts u
    assume "Call (Session_start sess rm agent opts) (Inr u) \<in> set (T @ post)"
    with no have "Call (Session_start sess rm agent opts) (Inr u) \<in> set post" by auto
    with gr obtain rr where "Call (Generate_reply sess greeting_instructions) rr \<in> set post"
      unfolding greeting_requested_def by blast
    then show "\<exists>rr. Call (Generate_reply sess greeting_instructions) rr \<in> set (T @ post)" by auto
  qed
qed

lemma greeting_logged:
  assumes "greeting_bounded T" and "greeting_requested T"
  shows "greeting_bounded (T @ [Log l m])" and "greeting_requested (T @ [Log l m])"
  using assms by (auto simp add: greeting_bounded_def greeting_requested_def)

lemma boot_facts_quiet:
  assumes "boot_inv {} H T"
  shows "boot_facts r T"
proof -
  from assms have q: "\<forall>ev\<in>set T. \<not> is_runtime_event ev" and a: "\<forall>sl. attempts sl T = []"
    by (simp_all add: boot_inv_def)
  from q have "\<forall>a b c d res. Call (AgentSession a b c d) res \<notin> set T"
    and "\<forall>aw t res. Call (Wait_for aw t) res \<notin> set T" by fastforce+
  with q a quiet_greeting(2,3) [OF q] show ?thesis by (simp add: boot_facts_def)
qed

lemma boot_facts_stop:
  assumes inv: "boot_inv B H T" and new: "sl \<notin> B" and blk: "slot_block sl fl evs"
    and r: "fl = Returned \<and> r = Inr () \<or> (\<exists>e. fl = Raised e \<and> r = Inl e)"
  shows "boot_facts r (T @ evs)"
proof -
  from inv blk have q: "\<forall>ev\<in>set (T @ evs). \<not> is_runtime_event ev"
    by (auto simp add: boot_inv_def slot_block_def)
  then have nosess: "\<forall>a b c d res. Call (AgentSession a b c d) res \<notin> set (T @ evs)"
    and nowait: "\<forall>aw t res. Call (Wait_for aw t) res \<notin> set (T @ evs)" by fastforce+
  from inv new have own: "attempts sl T = []" by (auto simp add: boot_inv_def split: if_splits)
  from blk have ne: "attempts sl evs \<noteq> []" by (simp add: slot_block_def)
  then have evs_ne: "evs \<noteq> []" by auto
  have others: "attempts sl' (T @ evs) = attempts sl' T" if "sl' \<noteq> sl" for sl'
    using that blk by (simp add: attempts_append slot_block_def)
  have mine: "attempts sl (T @ evs) = attempts sl evs"
    using own by (simp add: attempts_append)
  have bound: "attempts sl' T = [] \<or> (\<exists>h. snd (last (attempts sl' T)) = Inr h)" for sl'
    using inv by (auto simp add: boot_inv_def split: if_splits)
  have f1: "\<forall>x\<in>set (butlast (attempts sl' (T @ evs))). failed x" for sl'
  proof (cases "sl' = sl")
    case True
    with mine blk show ?thesis by (simp add: slot_block_def)
  next
    case False
    with others [OF False] inv show ?thesis by (auto simp add: boot_inv_def split: if_splits)
  qed
  have f4: "r = Inr () \<and> last (T @ evs) = Log ERROR [Lit (fatal_message sl'), Exc e2]"
    if h: "attempts sl' (T @ evs) = [(c1, Inl e1), (c2, Inl e2)]" "is_Exception e2"
    for sl' c1 e1 c2 e2
  proof (cases "sl' = sl")
    case True
    from r show ?thesis
    proof
      assume "fl = Returned \<and> r = Inr ()"
      with blk h True mine evs_ne show ?thesis by (auto simp add: slot_block_def)
    next
      assume "\<exists>e. fl = Raised e \<and> r = Inl e"
      with blk h True mine show ?thesis by (auto simp add: slot_block_def)
    qed
  next
    case False
    with others [OF False] h have "attempts sl' T = [(c1, Inl e1), (c2, Inl e2)]" by simp
    with bound [of sl'] show ?thesis by simp
  qed
  show ?thesis
    unfolding boot_facts_def
  proof (intro conjI)
    show "\<forall>sl. \<forall>x\<in>set (butlast (attempts sl (T @ evs))). failed x" using f1 by blast
    show "\<forall>stt llm tts vad res sl. Call (AgentSession stt llm tts vad) res \<in> set (T @ evs) \<longrightarrow>
        attempts sl (T @ evs) \<noteq> [] \<and>
        snd (last (attempts sl (T @ evs))) = Inr (slot_arg sl stt llm tts vad)"
      using nosess by blast
    show "\<forall>sl. (\<exists>ev\<in>set (T @ evs). is_runtime_event ev) \<longrightarrow>
        attempts sl (T @ evs) \<noteq> [] \<and> succeeded (last (attempts sl (T @ evs)))"
      using q by blast
    show "\<forall>sl c1 e1 c2 e2. attempts sl (T @ evs) = [(c1, Inl e1), (c2, Inl e2)] \<and> is_Exception e2 \<longrightarrow>
        r = Inr () \<and> last (T @ evs) = Log ERROR [Lit (fatal_message sl), Exc e2]"
      using f4 by blast
    show "\<forall>aw t res. Call (Wait_for aw t) res \<in> set (T @ evs) \<longrightarrow> t = 30"
      using nowait by blast
    show "\<forall>aw t. Call (Wait_for aw t) (Inl Asyncio_TimeoutError) \<in> set (T @ evs) \<longrightarrow>
        r = Inr () \<and>
        last (T @ evs) = Log WARNING [Lit ''Initial greeting generation timed out''] \<and>
        length (filter is_Generate_reply (T @ evs)) = 1"
      using nowait by blast
    show "greeting_bounded (T @ evs)" using quiet_greeting(2) [OF q] .
    show "greeting_requested (T @ evs)" using quiet_greeting(3) [OF q] .
  qed
qed

lemma boot_facts_session:
  assumes inv: "boot_inv UNIV H T" and blk: "session_block (H STT) (H LLM) (H TTS) (H VAD) r post"
  shows "boot_facts r (T @ post)"
proof -
  from inv have q: "\<forall>ev\<in>set T. \<not> is_runtime_event ev" by (simp add: boot_inv_def)
  then have nosess: "\<forall>a b c d res. Call (AgentSession a b c d) res \<notin> set T"
    and nowait: "\<forall>aw t res. Call (Wait_for aw t) res \<notin> set T" by fastforce+
  from q have nogen: "filter is_Generate_reply T = []"
  proof -
    have "is_Generate_reply ev \<Longrightarrow> is_runtime_event ev" for ev :: "'a event"
      by (cases ev rule: is_runtime_event.cases) simp_all
    with q show ?thesis by (auto simp add: filter_empty_conv)
  qed
  have att: "attempts sl (T @ post) = attempts sl T" for sl
    using blk by (simp add: attempts_append session_block_def)
  have b: "attempts sl T \<noteq> [] \<and> snd (last (attempts sl T)) = Inr (H sl) \<and>
           (\<forall>x\<in>set (butlast (attempts sl T)). failed x)" for sl
    using inv by (simp add: boot_inv_def)
  have f2: "attempts sl (T @ post) \<noteq> [] \<and>
            snd (last (attempts sl (T @ post))) = Inr (slot_arg sl stt llm tts vad)"
    if "Call (AgentSession stt llm tts vad) res \<in> set (T @ post)" for stt llm tts vad res sl
  proof -
    from that nosess have "Call (AgentSession stt llm tts vad) res \<in> set post" by auto
    with blk have "stt = H STT \<and> llm = H LLM \<and> tts = H TTS \<and> vad = H VAD"
      unfolding session_block_def by blast
    with b [of sl] att [of sl] show ?thesis by (cases sl) simp_all
  qed
  have f3: "attempts sl (T @ post) \<noteq> [] \<and> succeeded (last (attempts sl (T @ post)))" for sl
    using b [of sl] att [of sl] by (simp add: succeeded_def)
  have f4: "r = Inr () \<and> last (T @ post) = Log ERROR [Lit (fatal_message sl), Exc e2]"
    if "attempts sl (T @ post) = [(c1, Inl e1), (c2, Inl e2)]" for sl c1 e1 c2 e2
    using that b [of sl] att [of sl] by simp
  have f5: "r = Inr () \<and>
        last (T @ post) = Log WARNING [Lit ''Initial greeting generation timed out''] \<and>
        length (filter is_Generate_reply (T @ post)) = 1"
    if "Call (Wait_for aw t) (Inl Asyncio_TimeoutError) \<in> set (T @ post)" for aw t
  proof -
    from that nowait have in_post: "Call (Wait_for aw t) (Inl Asyncio_TimeoutError) \<in> set post" by auto
    then have "post \<noteq> []" by auto
    with in_post blk nogen show ?thesis unfolding session_block_def by auto
  qed
  have f6: "t = 30" if "Call (Wait_for aw t) res \<in> set (T @ post)" for aw t res
  proof -
    from that nowait have "Call (Wait_for aw t) res \<in> set post" by auto
    with blk show ?thesis unfolding session_block_def by blast
  qed
  show ?thesis
    unfolding boot_facts_def
  proof (intro conjI)
    show "\<forall>sl. \<forall>x\<in>set (butlast (attempts sl (T @ post))). failed x"
      using att b by simp
    show "\<forall>stt llm tts vad res sl. Call (AgentSession stt llm tts vad) res \<in> set (T @ post) \<longrightarrow>
        attempts sl (T @ post) \<noteq> [] \<and>
        snd (last (attempts sl (T @ post))) = Inr (slot_arg sl stt llm tts vad)"
      using f2 by blast
    show "\<forall>sl. (\<exists>ev\<in>set (T @ post). is_runtime_event ev) \<longrightarrow>
        attempts sl (T @ post) \<noteq> [] \<and> succeeded (last (attempts sl (T @ post)))"
      using f3 by blast
    show "\<forall>sl c1 e1 c2 e2. attempts sl (T @ post) = [(c1, Inl e1), (c2, Inl e2)] \<and> is_Exception e2 \<longrightarrow>
        r = Inr () \<and> last (T @ post) = Log ERROR [Lit (fatal_message sl), Exc e2]"
      using f4 by blast
    show "\<forall>aw t res. Call (Wait_for aw t) res \<in> set (T @ post) \<longrightarrow> t = 30"
      using f6 by blast
    show "\<forall>aw t. Call (Wait_for aw t) (Inl Asyncio_TimeoutError) \<in> set (T @ post) \<longrightarrow>
        r = Inr () \<and>
        last (T @ post) = Log WARNING [Lit ''Initial greeting generation timed out''] \<and>
        length (filter is_Generate_reply (T @ post)) = 1"
      using f5 by blast
    from blk have "greeting_bounded post" and "greeting_requested post"
      by (simp_all add: session_block_def)
    from greeting_after_quiet [OF q this]
    show "greeting_bounded (T @ post)" and "greeting_requested (T @ post)" .
  qed
qed

lemma boot_facts_logged:
  assumes "boot_facts (Inl e) T"
  shows "boot_facts (Inl e) (T @ [Log l m])"
  using assms greeting_logged [of T l m] by (simp add: boot_facts_def attempts_append)

lemma entrypoint_try_facts:
  fixes ext :: "('w, 'h) environment"
  assumes run: "entrypoint_try ext getenv room s = (r, s')"
  shows "\<exists>T. trace s' = trace s @ T \<and> boot_facts r T"
proof -
  define start :: "'h event" where "start = Log INFO [Lit ''Starting agent initialization...'']"
  define sa where "sa = logger INFO [Lit ''Starting agent initialization...''] s"
  have tsa: "trace sa = trace s @ [start]" by (simp add: sa_def logger_def start_def)
  define H0 :: "slot \<Rightarrow> 'h" where "H0 = (\<lambda>sl. room)"
  show ?thesis
  proof (cases "falsy (getenv ''AZURE_SPEECH_KEY'') \<or> falsy (getenv ''AZURE_SPEECH_REGION'') \<or>
                falsy (getenv ''GROQ_API_KEY'') \<or> falsy (getenv ''DEEPGRAM_API_KEY'')")
    case True
    with run obtain m where "r = Inr ()" and "s' = logger ERROR [Lit m] sa"
      by (auto simp add: entrypoint_try_def sa_def Let_def split: if_splits)
    with tsa have "trace s' = trace s @ [start, Log ERROR [Lit m]]" by (simp add: logger_def)
    moreover have "boot_facts r [start, Log ERROR [Lit m]]"
      by (rule boot_facts_quiet [where H = H0]) (simp add: boot_inv_def start_def)
    ultimately show ?thesis by blast
  next
    case creds: False
    obtain ra s1 where init: "Assistant_init ext sa = (ra, s1)" by (cases "Assistant_init ext sa")
    then obtain r0 where ts1: "trace s1 = trace s @ [start, Call (Agent_init INSTRUCTIONS) r0]"
      and ra: "(\<exists>e. ra = Inl e \<and> r0 = Inl e) \<or> (\<exists>a h. ra = Inr a \<and> r0 = Inr h)"
      using tsa by (auto simp add: Assistant_init_def call_ext_def split: prod.splits sum.splits)
    show ?thesis
    proof (cases ra)
      case (Inl e)
      with run creds init have "r = Inl e" "s' = s1"
        by (simp_all add: entrypoint_try_def sa_def Let_def)
      moreover have "boot_facts r [start, Call (Agent_init INSTRUCTIONS) r0]"
        by (rule boot_facts_quiet [where H = H0]) (simp add: boot_inv_def start_def)
      ultimately show ?thesis using ts1 by blast
    next
      case (Inr assistant)
      define created :: "'h event" where "created = Log INFO [Lit ''Assistant created successfully'']"
      define s1' where "s1' = logger INFO [Lit ''Assistant created successfully''] s1"
      define T0 where "T0 = [start, Call (Agent_init INSTRUCTIONS) r0, created]"
      have ts1': "trace s1' = trace s @ T0"
        using ts1 by (simp add: s1'_def logger_def T0_def created_def)
      have inv0: "boot_inv {} H0 T0"
        by (simp add: boot_inv_def T0_def start_def created_def)
      obtain f1 s2 where stt: "init_stt ext (getenv ''GROQ_API_KEY'') s1' = (f1, s2)"
        by (cases "init_stt ext (getenv ''GROQ_API_KEY'') s1'")
      from init_stt_block [OF stt] obtain e1 where e1: "trace s2 = trace s1' @ e1"
        "slot_block STT f1 e1" by blast
      have ts2: "trace s2 = trace s @ (T0 @ e1)" using e1 ts1' by simp
      from run creds init Inr stt have run1:
        "(case f1 of Raised e \<Rightarrow> (Inl e, s2) | Returned \<Rightarrow> (Inr (), s2)
          | Value stt \<Rightarrow>
              (case init_llm ext s2 of
                 (Raised e, s3) \<Rightarrow> (Inl e, s3)
               | (Returned, s3) \<Rightarrow> (Inr (), s3)
               | (Value llm, s3) \<Rightarrow>
              (case init_tts ext (getenv ''AZURE_SPEECH_KEY'') (getenv ''AZURE_SPEECH_REGION'') s3 of
                 (Raised e, s4) \<Rightarrow> (Inl e, s4)
               | (Returned, s4) \<Rightarrow> (Inr (), s4)
               | (Value tts, s4) \<Rightarrow>
              (case init_vad ext s4 of
                 (Raised e, s5) \<Rightarrow> (Inl e, s5)
               | (Returned, s5) \<Rightarrow> (Inr (), s5)
               | (Value vad, s5) \<Rightarrow>
                   start_session ext room assistant stt llm tts vad s5)))) = (r, s')"
        by (simp add: entrypoint_try_def sa_def s1'_def Let_def)
      show ?thesis
      proof (cases f1)
        case (Raised e)
        with run1 have "r = Inl e" "s' = s2" by simp_all
        with boot_facts_stop [OF inv0 _ e1(2), of r] Raised ts2 show ?thesis by auto
      next
        case Returned
        with run1 have "r = Inr ()" "s' = s2" by simp_all
        with boot_facts_stop [OF inv0 _ e1(2), of r] Returned ts2 show ?thesis by auto
      next
        case (Value stt_h)
        define H1 where "H1 = H0(STT := stt_h)"
        have inv1: "boot_inv {STT} H1 (T0 @ e1)"
          using boot_inv_bind [OF inv0 _ e1(2) [unfolded Value]] by (simp add: H1_def)
        obtain f2 s3 where llm: "init_llm ext s2 = (f2, s3)" by (cases "init_llm ext s2")
        from init_llm_block [OF llm] obtain e2 where e2: "trace s3 = trace s2 @ e2"
          "slot_block LLM f2 e2" by blast
        have ts3: "trace s3 = trace s @ ((T0 @ e1) @ e2)" using e2 ts2 by simp
        show ?thesis
        proof (cases f2)
          case (Raised e)
          with run1 Value llm have "r = Inl e" "s' = s3" by simp_all
          with boot_facts_stop [OF inv1 _ e2(2), of r] Raised ts3 show ?thesis by auto
        next
          case Returned
          with run1 Value llm have "r = Inr ()" "s' = s3" by simp_all
          with boot_facts_stop [OF inv1 _ e2(2), of r] Returned ts3 show ?thesis by auto
        next
          case llm_v: (Value llm_h)
          define H2 where "H2 = H1(LLM := llm_h)"
          have inv2: "boot_inv {LLM, STT} H2 ((T0 @ e1) @ e2)"
            using boot_inv_bind [OF inv1 _ e2(2) [unfolded llm_v]] by (simp add: H2_def)
          obtain f3 s4 where tts:
            "init_tts ext (getenv ''AZURE_SPEECH_KEY'') (getenv ''AZURE_SPEECH_REGION'') s3 = (f3, s4)"
            by (cases "init_tts ext (getenv ''AZURE_SPEECH_KEY'') (getenv ''AZURE_SPEECH_REGION'') s3")
          from init_tts_block [OF tts] obtain e3 where e3: "trace s4 = trace s3 @ e3"
            "slot_block TTS f3 e3" by blast
          have ts4: "trace s4 = trace s @ (((T0 @ e1) @ e2) @ e3)" using e3 ts3 by simp
          show ?thesis
          proof (cases f3)
            case (Raised e)
            with run1 Value llm llm_v tts have "r = Inl e" "s' = s4" by simp_all
            with boot_facts_stop [OF inv2 _ e3(2), of r] Raised ts4 show ?thesis by auto
          next
            case Returned
            with run1 Value llm llm_v tts have "r = Inr ()" "s' = s4" by simp_all
            with boot_facts_stop [OF inv2 _ e3(2), of r] Returned ts4 show ?thesis by auto
          next
            case tts_v: (Value tts_h)
            define H3 where "H3 = H2(TTS := tts_h)"
            have inv3: "boot_inv {TTS, LLM, STT} H3 (((T0 @ e1) @ e2) @ e3)"
              using boot_inv_bind [OF inv2 _ e3(2) [unfolded tts_v]] by (simp add: H3_def)
            obtain f4 s5 where vad: "init_vad ext s4 = (f4, s5)" by (cases "init_vad ext s4")
            from init_vad_block [OF vad] obtain e4 where e4: "trace s5 = trace s4 @ e4"
              "slot_block VAD f4 e4" by blast
            have ts5: "trace s5 = trace s @ ((((T0 @ e1) @ e2) @ e3) @ e4)" using e4 ts4 by simp
            show ?thesis
            proof (cases f4)
              case (Raised e)
              with run1 Value llm llm_v tts tts_v vad have "r = Inl e" "s' = s5" by simp_all
              with boot_facts_stop [OF inv3 _ e4(2), of r] Raised ts5 show ?thesis by auto
            next
              case Returned
              with run1 Value llm llm_v tts tts_v vad have "r = Inr ()" "s' = s5" by simp_all
              with boot_facts_stop [OF inv3 _ e4(2), of r] Returned ts5 show ?thesis by auto
            next
              case vad_v: (Value vad_h)
              define H4 where "H4 = H3(VAD := vad_h)"
              have "boot_inv {VAD, TTS, LLM, STT} H4 ((((T0 @ e1) @ e2) @ e3) @ e4)"
                using boot_inv_bind [OF inv3 _ e4(2) [unfolded vad_v]] by (simp add: H4_def)
              moreover have "{VAD, TTS, LLM, STT} = UNIV"
              proof -
                have "sl \<in> {VAD, TTS, LLM, STT}" for sl by (cases sl) simp_all
                then show ?thesis by blast
              qed
              ultimately have inv4: "boot_inv UNIV H4 ((((T0 @ e1) @ e2) @ e3) @ e4)" by simp
              have Hs: "H4 STT = stt_h" "H4 LLM = llm_h" "H4 TTS = tts_h" "H4 VAD = vad_h"
                by (simp_all add: H4_def H3_def H2_def H1_def)
              from run1 Value llm llm_v tts tts_v vad vad_v
              have ss: "start_session ext room assistant stt_h llm_h tts_h vad_h s5 = (r, s')"
                by simp
              from start_session_block [OF ss] obtain post where post: "trace s' = trace s5 @ post"
                "session_block stt_h llm_h tts_h vad_h r post" by blast
              from post(2) Hs have "session_block (H4 STT) (H4 LLM) (H4 TTS) (H4 VAD) r post" by simp
              from boot_facts_session [OF inv4 this] post(1) ts5 show ?thesis by auto
            qed
          qed
        qed
      qed
    qed
  qed
qed

lemma entrypoint_facts:
  fixes ext :: "('w, 'h) environment"
  assumes run: "entrypoint ext getenv room s = (r, s')"
  shows "boot_facts r (new_events s s')"
proof -
  obtain r1 s1 where body: "entrypoint_try ext getenv room s = (r1, s1)"
    by (cases "entrypoint_try ext getenv room s")
  from entrypoint_try_facts [OF body] obtain T where T: "trace s1 = trace s @ T" "boot_facts r1 T"
    by blast
  show ?thesis
  proof (cases r1)
    case (Inr u)
    with run body have "r = r1" "s' = s1" by (simp_all add: entrypoint_def)
    with T show ?thesis by (simp add: new_events_def)
  next
    case (Inl e)
    show ?thesis
    proof (cases "is_Exception e")
      case True
      with run body Inl have "r = Inl e" "s' = logger ERROR [Lit ''Entrypoint error: '', Exc e] s1"
        by (simp_all add: entrypoint_def)
      with T Inl boot_facts_logged [of e T ERROR "[Lit ''Entrypoint error: '', Exc e]"]
      show ?thesis by (simp add: new_events_def logger_def)
    next
      case False
      with run body Inl have "r = r1" "s' = s1" by (simp_all add: entrypoint_def)
      with T show ?thesis by (simp add: new_events_def)
    qed
  qed
qed

lemma is_session_runtime: "is_session_event ev \<Longrightarrow> is_runtime_event ev"
  by (cases ev rule: is_session_event.cases) simp_all

lemma boot_factsD:
  assumes "boot_facts r T"
  shows "\<forall>x\<in>set (butlast (attempts sl T)). failed x"
    and "Call (AgentSession stt llm tts vad) res \<in> set T \<Longrightarrow>
           snd (last (attempts sl T)) = Inr (slot_arg sl stt llm tts vad)"
    and "\<exists>ev\<in>set T. is_runtime_event ev \<Longrightarrow>
           attempts sl T \<noteq> [] \<and> succeeded (last (attempts sl T))"
    and "attempts sl T = [(c1, Inl e1), (c2, Inl e2)] \<Longrightarrow> is_Exception e2 \<Longrightarrow>
           r = Inr () \<and> last T = Log ERROR [Lit (fatal_message sl), Exc e2]"
    and "Call (Wait_for aw t) res' \<in> set T \<Longrightarrow> t = 30"
    and "Call (Wait_for aw t) (Inl Asyncio_TimeoutError) \<in> set T \<Longrightarrow>
           r = Inr () \<and> last T = Log WARNING [Lit ''Initial greeting generation timed out''] \<and>
           length (filter is_Generate_reply T) = 1"
    and "greeting_bounded T"
    and "greeting_requested T"
proof -
  from assms show "greeting_bounded T" and "greeting_requested T"
    by (simp_all add: boot_facts_def)
  from assms show "\<forall>x\<in>set (butlast (attempts sl T)). failed x"
    by (simp add: boot_facts_def)
  from assms have "\<forall>stt llm tts vad res sl. Call (AgentSession stt llm tts vad) res \<in> set T \<longrightarrow>
        attempts sl T \<noteq> [] \<and> snd (last (attempts sl T)) = Inr (slot_arg sl stt llm tts vad)"
    by (simp add: boot_facts_def)
  then show "Call (AgentSession stt llm tts vad) res \<in> set T \<Longrightarrow>
           snd (last (attempts sl T)) = Inr (slot_arg sl stt llm tts vad)" by blast
  from assms have "\<forall>sl. (\<exists>ev\<in>set T. is_runtime_event ev) \<longrightarrow>
        attempts sl T \<noteq> [] \<and> succeeded (last (attempts sl T))"
    by (simp add: boot_facts_def)
  then show "\<exists>ev\<in>set T. is_runtime_event ev \<Longrightarrow>
           attempts sl T \<noteq> [] \<and> succeeded (last (attempts sl T))" by blast
  from assms have "\<forall>sl c1 e1 c2 e2. attempts sl T = [(c1, Inl e1), (c2, Inl e2)] \<and> is_Exception e2 \<longrightarrow>
        r = Inr () \<and> last T = Log ERROR [Lit (fatal_message sl), Exc e2]"
    by (simp add: boot_facts_def)
  then show "attempts sl T = [(c1, Inl e1), (c2, Inl e2)] \<Longrightarrow> is_Exception e2 \<Longrightarrow>
           r = Inr () \<and> last T = Log ERROR [Lit (fatal_message sl), Exc e2]" by blast
  from assms have "\<forall>aw t res. Call (Wait_for aw t) res \<in> set T \<longrightarrow> t = 30"
    by (simp add: boot_facts_def)
  then show "Call (Wait_for aw t) res' \<in> set T \<Longrightarrow> t = 30" by blast
  from assms have "\<forall>aw t. Call (Wait_for aw t) (Inl Asyncio_TimeoutError) \<in> set T \<longrightarrow>
        r = Inr () \<and> last T = Log WARNING [Lit ''Initial greeting generation timed out''] \<and>
        length (filter is_Generate_reply T) = 1"
    by (simp add: boot_facts_def)
  then show "Call (Wait_for aw t) (Inl Asyncio_TimeoutError) \<in> set T \<Longrightarrow>
           r = Inr () \<and> last T = Log WARNING [Lit ''Initial greeting generation timed out''] \<and>
           length (filter is_Generate_reply T) = 1" by blast
qed


subsection \<open>Four runs of the entry point\<close>

lemmas run_defs = entrypoint_def entrypoint_try_def Assistant_init_def init_stt_def init_llm_def
  init_tts_def init_vad_def start_session_def greeting_def greeting_except_def call_ext_def
  logger_def Let_def falsy_def getenv_full_def st0_def py_str_def

lemma run_stt_interrupted:
  "entrypoint env_stt_interrupted getenv_full 0 st0 =
     (Inl KeyboardInterrupt,
      \<lparr>trace =
         [Log INFO [Lit ''Starting agent initialization...''],
          Call (Agent_init INSTRUCTIONS) (Inr 0),
          Log INFO [Lit ''Assistant created successfully''],
          Call (Construct (Groq_STT ''whisper-large-v3-turbo'' (Some (py_str ''k2'')) ''auto'' True))
            (Inl ConnectionError),
          Call (Construct (Deepgram_STT ''nova-3'' ''multi'' True True True)) (Inl KeyboardInterrupt)],
       world = ()\<rparr>)"
  by (simp add: run_defs)

lemma run_tts_down:
  "entrypoint env_tts_down getenv_full 0 st0 =
     (Inr (),
      \<lparr>trace =
         [Log INFO [Lit ''Starting agent initialization...''],
          Call (Agent_init INSTRUCTIONS) (Inr 0),
          Log INFO [Lit ''Assistant created successfully''],
          Call (Construct (Groq_STT ''whisper-large-v3-turbo'' (Some (py_str ''k2'')) ''auto'' True)) (Inr 0),
          Log INFO [Lit ''STT initialized''],
          Call (Construct (Groq_LLM ''qwen/qwen3-32b'')) (Inr 0),
          Log INFO [Lit ''LLM initialized with Urdu-optimized model''],
          Call (Construct (Azure_TTS (Some (py_str ''k1'')) (Some (py_str ''eastus''))
                  ''ur-PK-AsadNeural'' (Some ''ur-PK'') 24000)) (Inl ValueError),
          Log ERROR [Lit ''TTS initialization failed: '', Exc ValueError],
          Call (Construct (Azure_TTS (Some (py_str ''k1'')) (Some (py_str ''eastus''))
                  ''en-US-AriaNeural'' None 24000)) (Inl ValueError),
          Log ERROR [Lit ''TTS fallback failed: '', Exc ValueError]],
       world = ()\<rparr>)"
  by (simp add: run_defs)


lemma run_greeting_timeout:
  "entrypoint env_greeting_timeout getenv_full 0 st0 =
     (Inr (),
      \<lparr>trace =
         [Log INFO [Lit ''Starting agent initialization...''],
          Call (Agent_init INSTRUCTIONS) (Inr 0),
          Log INFO [Lit ''Assistant created successfully''],
          Call (Construct (Groq_STT ''whisper-large-v3-turbo'' (Some (py_str ''k2'')) ''auto'' True)) (Inr 0),
          Log INFO [Lit ''STT initialized''],
          Call (Construct (Groq_LLM ''qwen/qwen3-32b'')) (Inr 0),
          Log INFO [Lit ''LLM initialized with Urdu-optimized model''],
          Call (Construct (Azure_TTS (Some (py_str ''k1'')) (Some (py_str ''eastus''))
                  ''ur-PK-AsadNeural'' (Some ''ur-PK'') 24000)) (Inr 0),
          Log INFO [Lit ''TTS initialized with Hindi voice''],
          Call (Construct (Silero_VAD_load (Some 0.5) (Some 0.3))) (Inr 0),
          Log INFO [Lit ''VAD initialized with multilingual settings''],
          Call (AgentSession 0 0 0 0) (Inr 3),
          Log INFO [Lit ''Session created, starting...''],
          Call BVC (Inr 0),
          Call (RoomInputOptions 0) (Inr 0),
          Call (Session_start 3 0
                  \<lparr>instructions = INSTRUCTIONS, user_language_preference = py_str ''english'',
                     conversation_history = []\<rparr> 0) (Inr 0),
          Log INFO [Lit ''Session started successfully - Hindi input '', Uni [0x2192],
                    Lit '' Urdu script output pipeline''],
          Call (Generate_reply 3 greeting_instructions) (Inr 5),
          Call (Wait_for 5 30) (Inl Asyncio_TimeoutError),
          Log WARNING [Lit ''Initial greeting generation timed out'']],
       world = ()\<rparr>)"
  by (simp add: run_defs)

lemma new_events_st0: "new_events st0 s' = trace s'"
  by (simp add: new_events_def st0_def)

subsection \<open>Missing credentials\<close>

text \<open>
  Claim C6, as stated, fails: with no variable set, the Groq and the Deepgram key are
  absent as well, but the entry point returns at the first check, so the only error
  record is the one about the Azure credentials; the absence of the other two is not
  reported.
\<close>

theorem missing_credential_counterexample:
  "falsy (getenv_none ''GROQ_API_KEY'') \<and> falsy (getenv_none ''DEEPGRAM_API_KEY'') \<and>
   trace (snd (entrypoint env_ok getenv_none 0 st0)) =
     [Log INFO [Lit ''Starting agent initialization...''],
      Log ERROR [Lit ''Azure Speech credentials not found in environment variables'']]"
  by (simp add: entrypoint_def entrypoint_try_def logger_def Let_def falsy_def getenv_none_def
        st0_def)

text \<open>
  Claim C6, amended.  When a required credential is absent (unset or empty) the entry
  point reports the first absent one, in the order checked: the Azure speech key and
  region, then the Groq key, then the Deepgram key.  Each of the three has a message of
  its own, and the entry point returns at once: apart from the two log records nothing
  happens, no backend construction is attempted, no call leaves the module and the
  outside world is unchanged.
\<close>

theorem missing_credential_aborts:
  fixes ext :: "('w, 'h) environment"
  shows "(falsy (getenv ''AZURE_SPEECH_KEY'') \<or> falsy (getenv ''AZURE_SPEECH_REGION'') \<longrightarrow>
            entrypoint ext getenv room s =
              (Inr (), s\<lparr>trace := trace s @
                 [Log INFO [Lit ''Starting agent initialization...''],
                  Log ERROR [Lit ''Azure Speech credentials not found in environment variables'']]\<rparr>)) \<and>
         (\<not> falsy (getenv ''AZURE_SPEECH_KEY'') \<and> \<not> falsy (getenv ''AZURE_SPEECH_REGION'') \<and>
          falsy (getenv ''GROQ_API_KEY'') \<longrightarrow>
            entrypoint ext getenv room s =
              (Inr (), s\<lparr>trace := trace s @
                 [Log INFO [Lit ''Starting agent initialization...''],
                  Log ERROR [Lit ''Groq API key not found in environment variables'']]\<rparr>)) \<and>
         (\<not> falsy (getenv ''AZURE_SPEECH_KEY'') \<and> \<not> falsy (getenv ''AZURE_SPEECH_REGION'') \<and>
          \<not> falsy (getenv ''GROQ_API_KEY'') \<and> falsy (getenv ''DEEPGRAM_API_KEY'') \<longrightarrow>
            entrypoint ext getenv room s =
              (Inr (), s\<lparr>trace := trace s @
                 [Log INFO [Lit ''Starting agent initialization...''],
                  Log ERROR [Lit ''Deepgram API key not found in environment variables'']]\<rparr>))"
  by (simp add: entrypoint_def entrypoint_try_def logger_def Let_def)

theorem missing_credential_aborts_witness:
  "falsy (getenv_none ''AZURE_SPEECH_KEY'') \<and>
   entrypoint env_ok getenv_none 0 st0 =
     (Inr (), st0\<lparr>trace := trace st0 @
        [Log INFO [Lit ''Starting agent initialization...''],
         Log ERROR [Lit ''Azure Speech credentials not found in environment variables'']]\<rparr>) \<and>
   falsy (getenv_azure_only ''GROQ_API_KEY'') \<and>
   entrypoint env_ok getenv_azure_only 0 st0 =
     (Inr (), st0\<lparr>trace := trace st0 @
        [Log INFO [Lit ''Starting agent initialization...''],
         Log ERROR [Lit ''Groq API key not found in environment variables'']]\<rparr>) \<and>
   falsy (getenv_no_deepgram ''DEEPGRAM_API_KEY'') \<and>
   entrypoint env_ok getenv_no_deepgram 0 st0 =
     (Inr (), st0\<lparr>trace := trace st0 @
        [Log INFO [Lit ''Starting agent initialization...''],
         Log ERROR [Lit ''Deepgram API key not found in environment variables'']]\<rparr>)"
proof -
  have a: "falsy (getenv_none ''AZURE_SPEECH_KEY'')" by (simp add: falsy_def getenv_none_def)
  have b: "\<not> falsy (getenv_azure_only ''AZURE_SPEECH_KEY'') \<and>
           \<not> falsy (getenv_azure_only ''AZURE_SPEECH_REGION'') \<and>
           falsy (getenv_azure_only ''GROQ_API_KEY'')"
    by (simp add: falsy_def getenv_azure_only_def py_str_def)
  have c: "\<not> falsy (getenv_no_deepgram ''AZURE_SPEECH_KEY'') \<and>
           \<not> falsy (getenv_no_deepgram ''AZURE_SPEECH_REGION'') \<and>
           \<not> falsy (getenv_no_deepgram ''GROQ_API_KEY'') \<and>
           falsy (getenv_no_deepgram ''DEEPGRAM_API_KEY'')"
    by (simp add: falsy_def getenv_no_deepgram_def getenv_full_def py_str_def)
  from a b c
    missing_credential_aborts [of getenv_none env_ok 0 st0]
    missing_credential_aborts [of getenv_azure_only env_ok 0 st0]
    missing_credential_aborts [of getenv_no_deepgram env_ok 0 st0]
  show ?thesis by blast
qed

subsection \<open>First success wins\<close>



subsection \<open>An exhausted slot\<close>

text \<open>
  Claim C2, as stated, fails: when the first speech-to-text backend fails and the
  fallback is left by \<open>KeyboardInterrupt\<close>, every attempt of the slot has failed, yet no
  error record at all is logged; the exception leaves the entry point through both
  \<open>except Exception\<close> handlers.
\<close>

theorem exhausted_slot_counterexample:
  "attempts STT (trace (snd (entrypoint env_stt_interrupted getenv_full 0 st0))) =
     [(Groq_STT ''whisper-large-v3-turbo'' (Some (py_str ''k2'')) ''auto'' True, Inl ConnectionError),
      (Deepgram_STT ''nova-3'' ''multi'' True True True, Inl KeyboardInterrupt)] \<and>
   fst (entrypoint env_stt_interrupted getenv_full 0 st0) = Inl KeyboardInterrupt \<and>
   filter is_error_record (trace (snd (entrypoint env_stt_interrupted getenv_full 0 st0))) = []"
  by (simp add: run_stt_interrupted)

text \<open>
  Claim C2, amended.  For every slot: when both attempts of the slot's chain have failed
  and the second failure is an \<open>Exception\<close>, the entry point returns without raising
  and the last event is the slot's own error record; and whenever the slot has no
  attempt, or its last attempt failed, whatever was raised, no session is created or
  started in that run.
\<close>

theorem exhausted_slot_aborts:
  fixes ext :: "('w, 'h) environment"
  assumes run: "entrypoint ext getenv room s = (r, s')"
  shows "(attempts sl (new_events s s') = [(c1, Inl e1), (c2, Inl e2)] \<and> is_Exception e2 \<longrightarrow>
            r = Inr () \<and> last (new_events s s') = Log ERROR [Lit (fatal_message sl), Exc e2]) \<and>
         (attempts sl (new_events s s') = [] \<or> failed (last (attempts sl (new_events s s'))) \<longrightarrow>
            (\<forall>ev\<in>set (new_events s s'). \<not> is_session_event ev))"
proof -
  note bf = entrypoint_facts [OF run]
  have a: "r = Inr () \<and> last (new_events s s') = Log ERROR [Lit (fatal_message sl), Exc e2]"
    if "attempts sl (new_events s s') = [(c1, Inl e1), (c2, Inl e2)]" "is_Exception e2"
    using boot_factsD(4) [OF bf that] .
  have b: "\<not> is_session_event ev"
    if h: "attempts sl (new_events s s') = [] \<or> failed (last (attempts sl (new_events s s')))"
      and ev: "ev \<in> set (new_events s s')" for ev
  proof
    assume "is_session_event ev"
    with ev have "\<exists>ev\<in>set (new_events s s'). is_runtime_event ev"
      using is_session_runtime by blast
    from boot_factsD(3) [OF bf this, of sl] h show False
      by (auto simp add: failed_def succeeded_def)
  qed
  from a b show ?thesis by blast
qed

theorem exhausted_slot_aborts_witness:
  "attempts TTS (new_events st0 (snd (entrypoint env_tts_down getenv_full 0 st0))) =
     [(Azure_TTS (Some (py_str ''k1'')) (Some (py_str ''eastus'')) ''ur-PK-AsadNeural'' (Some ''ur-PK'') 24000,
       Inl ValueError),
      (Azure_TTS (Some (py_str ''k1'')) (Some (py_str ''eastus'')) ''en-US-AriaNeural'' None 24000,
       Inl ValueError)] \<and>
   is_Exception ValueError \<and>
   failed (last (attempts TTS (new_events st0 (snd (entrypoint env_tts_down getenv_full 0 st0))))) \<and>
   fst (entrypoint env_tts_down getenv_full 0 st0) = Inr () \<and>
   last (new_events st0 (snd (entrypoint env_tts_down getenv_full 0 st0))) =
     Log ERROR [Lit (fatal_message TTS), Exc ValueError] \<and>
   filter is_session_event (new_events st0 (snd (entrypoint env_tts_down getenv_full 0 st0))) = []"
proof -
  have run: "entrypoint env_tts_down getenv_full 0 st0 =
      (fst (entrypoint env_tts_down getenv_full 0 st0),
       snd (entrypoint env_tts_down getenv_full 0 st0))" by simp
  have a: "attempts TTS (new_events st0 (snd (entrypoint env_tts_down getenv_full 0 st0))) =
     [(Azure_TTS (Some (py_str ''k1'')) (Some (py_str ''eastus'')) ''ur-PK-AsadNeural'' (Some ''ur-PK'') 24000,
       Inl ValueError),
      (Azure_TTS (Some (py_str ''k1'')) (Some (py_str ''eastus'')) ''en-US-AriaNeural'' None 24000,
       Inl ValueError)]"
    by (simp add: new_events_st0 run_tts_down)
  have e: "is_Exception ValueError" by simp
  have f: "failed (last (attempts TTS (new_events st0 (snd (entrypoint env_tts_down getenv_full 0 st0)))))"
    by (simp add: a failed_def)
  from exhausted_slot_aborts [OF run, of TTS _ ValueError _ ValueError] a e f
  show ?thesis by (simp add: filter_empty_conv)
qed

subsection \<open>The greeting timeout\<close>

text \<open>
  Claim C7.  In every run of the entry point the greeting calls are bounded: there are
  none, or exactly one request for the reply, made on the session that \<open>AgentSession\<close>
  returned, and, when the request returned a reply, exactly one \<open>wait_for\<close> on that very
  reply with timeout 30.  A session that was started always has its greeting requested.
  When the \<open>wait_for\<close> raises \<open>TimeoutError\<close>, the entry point logs the warning as its
  last act and returns normally; the reply was requested exactly once in the run, so the
  greeting is not retried.
\<close>

theorem greeting_timeout:
  fixes ext :: "('w, 'h) environment"
  assumes run: "entrypoint ext getenv room s = (r, s')"
  shows "(filter is_greeting_event (new_events s s') = [] \<or>
          (\<exists>sess stt llm tts vad.
             Call (AgentSession stt llm tts vad) (Inr sess) \<in> set (new_events s s') \<and>
             ((\<exists>e. filter is_greeting_event (new_events s s') =
                    [Call (Generate_reply sess greeting_instructions) (Inl e)]) \<or>
              (\<exists>reply res. filter is_greeting_event (new_events s s') =
                    [Call (Generate_reply sess greeting_instructions) (Inr reply),
                     Call (Wait_for reply 30) res])))) \<and>
         (\<forall>sess rm agent opts u.
            Call (Session_start sess rm agent opts) (Inr u) \<in> set (new_events s s') \<longrightarrow>
            (\<exists>rr. Call (Generate_reply sess greeting_instructions) rr \<in> set (new_events s s'))) \<and>
         (\<forall>reply t res. Call (Wait_for reply t) res \<in> set (new_events s s') \<longrightarrow> t = 30) \<and>
         (\<forall>reply t. Call (Wait_for reply t) (Inl Asyncio_TimeoutError) \<in> set (new_events s s') \<longrightarrow>
            r = Inr () \<and>
            last (new_events s s') = Log WARNING [Lit ''Initial greeting generation timed out''] \<and>
            length (filter is_Generate_reply (new_events s s')) = 1)"
proof -
  note bf = entrypoint_facts [OF run]
  from boot_factsD(7) [OF bf]
  have a: "filter is_greeting_event (new_events s s') = [] \<or>
          (\<exists>sess stt llm tts vad.
             Call (AgentSession stt llm tts vad) (Inr sess) \<in> set (new_events s s') \<and>
             ((\<exists>e. filter is_greeting_event (new_events s s') =
                    [Call (Generate_reply sess greeting_instructions) (Inl e)]) \<or>
              (\<exists>reply res. filter is_greeting_event (new_events s s') =
                    [Call (Generate_reply sess greeting_instructions) (Inr reply),
                     Call (Wait_for reply 30) res])))"
    by (simp only: greeting_bounded_def)
  from boot_factsD(8) [OF bf]
  have b: "\<forall>sess rm agent opts u.
            Call (Session_start sess rm agent opts) (Inr u) \<in> set (new_events s s') \<longrightarrow>
            (\<exists>rr. Call (Generate_reply sess greeting_instructions) rr \<in> set (new_events s s'))"
    by (simp only: greeting_requested_def)
  have c: "\<forall>reply t res. Call (Wait_for reply t) res \<in> set (new_events s s') \<longrightarrow> t = 30"
    using boot_factsD(5) [OF bf] by blast
  have d: "\<forall>reply t. Call (Wait_for reply t) (Inl Asyncio_TimeoutError) \<in> set (new_events s s') \<longrightarrow>
            r = Inr () \<and>
            last (new_events s s') = Log WARNING [Lit ''Initial greeting generation timed out''] \<and>
            length (filter is_Generate_reply (new_events s s')) = 1"
    using boot_factsD(6) [OF bf] by blast
  from a b c d show ?thesis by (intro conjI)
qed

theorem greeting_timeout_witness:
  "Call (Session_start 3 0
           \<lparr>instructions = INSTRUCTIONS, user_language_preference = py_str ''english'',
              conversation_history = []\<rparr> 0) (Inr 0) \<in>
     set (new_events st0 (snd (entrypoint env_greeting_timeout getenv_full 0 st0))) \<and>
   Call (Wait_for 5 30) (Inl Asyncio_TimeoutError) \<in>
     set (new_events st0 (snd (entrypoint env_greeting_timeout getenv_full 0 st0))) \<and>
   filter is_greeting_event (new_events st0 (snd (entrypoint env_greeting_timeout getenv_full 0 st0))) =
     [Call (Generate_reply 3 greeting_instructions) (Inr 5),
      Call (Wait_for 5 30) (Inl Asyncio_TimeoutError)] \<and>
   fst (entrypoint env_greeting_timeout getenv_full 0 st0) = Inr () \<and>
   last (new_events st0 (snd (entrypoint env_greeting_timeout getenv_full 0 st0))) =
     Log WARNING [Lit ''Initial greeting generation timed out''] \<and>
   length (filter is_Generate_reply
     (new_events st0 (snd (entrypoint env_greeting_timeout getenv_full 0 st0)))) = 1"
proof -
  have run: "entrypoint env_greeting_timeout getenv_full 0 st0 =
      (fst (entrypoint env_greeting_timeout getenv_full 0 st0),
       snd (entrypoint env_greeting_timeout getenv_full 0 st0))" by simp
  have st: "Call (Session_start 3 0
           \<lparr>instructions = INSTRUCTIONS, user_language_preference = py_str ''english'',
              conversation_history = []\<rparr> 0) (Inr 0) \<in>
     set (new_events st0 (snd (entrypoint env_greeting_timeout getenv_full 0 st0)))"
    by (simp add: new_events_st0 run_greeting_timeout)
  have t: "Call (Wait_for 5 30) (Inl Asyncio_TimeoutError) \<in>
     set (new_events st0 (snd (entrypoint env_greeting_timeout getenv_full 0 st0)))"
    by (simp add: new_events_st0 run_greeting_timeout)
  have f: "filter is_greeting_event
      (new_events st0 (snd (entrypoint env_greeting_timeout getenv_full 0 st0))) =
     [Call (Generate_reply 3 greeting_instructions) (Inr 5),
      Call (Wait_for 5 30) (Inl Asyncio_TimeoutError)]"
    by (simp add: new_events_st0 run_greeting_timeout)
  from greeting_timeout [OF run] st t f show ?thesis by blast
qed

end
